theory Spec2Isabelle
  imports Complex_Main
begin

section \<open>Python values\<close>

text \<open>
  Floats are modelled as exact reals. \<open>int(x)\<close> truncates toward zero and
  \<open>round(x, n)\<close> rounds to \<open>n\<close> decimals, ties to the even neighbour.
\<close>

definition py_int :: "real \<Rightarrow> int" where
  "py_int x = (if 0 \<le> x then \<lfloor>x\<rfloor> else \<lceil>x\<rceil>)"

definition round_half_even :: "real \<Rightarrow> int" where
  "round_half_even y =
     (let f = \<lfloor>y\<rfloor>; d = y - of_int f
      in if d < 1 / 2 then f else if 1 / 2 < d then f + 1 else if even f then f else f + 1)"

definition py_round :: "real \<Rightarrow> nat \<Rightarrow> real" where
  "py_round x n = of_int (round_half_even (x * 10 ^ n)) / 10 ^ n"

text \<open>The exceptions of the model. \<open>ConfigurationError\<close> carries the minimum region count
  it names.\<close>

datatype py_error =
    ValueError string
  | KeyError string
  | ZeroDivisionError
  | ConfigurationError nat

text \<open>A dict is an association list in insertion order; assignment to a present key
  keeps its position.\<close>

fun dict_set :: "('k \<times> 'v) list \<Rightarrow> 'k \<Rightarrow> 'v \<Rightarrow> ('k \<times> 'v) list" where
  "dict_set [] k v = [(k, v)]"
| "dict_set ((k', v') # kvs) k v =
     (if k' = k then (k, v) # kvs else (k', v') # dict_set kvs k v)"

definition dict_get :: "('k \<times> 'v) list \<Rightarrow> 'k \<Rightarrow> 'v" where
  "dict_get kvs k = the (map_of kvs k)"

section \<open>The process-wide random generator\<close>

text \<open>
  \<open>np.random\<close> is a deterministic state machine: \<open>seed\<close> sets the state, every draw
  returns a sample and the next state. Both are parameters of the model. The list
  \<open>seed_log\<close> records the calls of \<open>np.random.seed\<close> in order.
\<close>

datatype dist =
    Normal real real
  | Beta real real
  | Gamma real real
  | Exponential real
  | Uniform real real

record 's np_random =
  seed_op :: "nat \<Rightarrow> 's"
  draw_op :: "dist \<Rightarrow> 's \<Rightarrow> real \<times> 's"

record 's world =
  rng :: 's
  seed_log :: "nat list"

definition np_random_seed :: "'s np_random \<Rightarrow> nat \<Rightarrow> 's world \<Rightarrow> 's world" where
  "np_random_seed R n w = \<lparr>rng = seed_op R n, seed_log = seed_log w @ [n]\<rparr>"

text \<open>What the model assumes of \<open>np.random.uniform(lo, hi)\<close> where a bound on a sample is
  needed: the sample lies between \<open>lo\<close> and \<open>hi\<close>.\<close>

definition uniform_in_range :: "'s np_random \<Rightarrow> bool" where
  "uniform_in_range R =
     (\<forall>lo hi s. lo \<le> hi \<longrightarrow>
        lo \<le> fst (draw_op R (Uniform lo hi) s) \<and> fst (draw_op R (Uniform lo hi) s) \<le> hi)"

definition counties :: "string list" where
  "counties = [''17031'', ''36061'', ''06037'', ''48201'', ''04013'', ''53033'', ''25025'']"

section \<open>Spending generator\<close>

record spending_row =
  sp_county_fips :: string
  category :: string
  spending_amount :: real
  spending_proportion :: real

definition categories :: "string list" where
  "categories = [''restaurants'', ''retail'', ''grocery'', ''entertainment'',
                 ''transportation'', ''healthcare'']"

definition base_multiplier :: "string \<Rightarrow> real" where
  "base_multiplier county =
     (if county = ''36061'' then 1.8
      else if county = ''53033'' then 1.6
      else if county = ''25025'' then 1.5
      else if county = ''06037'' then 1.4
      else if county = ''17031'' then 1.2
      else 1.0)"

definition category_dist :: "string \<Rightarrow> string \<Rightarrow> dist" where
  "category_dist county cat =
     (if cat = ''restaurants'' then Gamma 3 50000
      else if cat = ''retail'' then Gamma 2.5 60000
      else if cat = ''entertainment'' \<and> county = ''06037'' then Gamma 4 40000
      else if cat = ''transportation'' then Gamma 2 30000
      else Gamma 2 40000)"

text \<open>The inner loop over the categories: it fills \<open>category_spending\<close> and
  accumulates \<open>total_spending\<close>.\<close>

fun category_loop ::
  "'s np_random \<Rightarrow> string \<Rightarrow> string list \<Rightarrow> (string \<times> real) list \<Rightarrow> real \<Rightarrow> 's
     \<Rightarrow> (string \<times> real) list \<times> real \<times> 's" where
  "category_loop R county [] category_spending total_spending s =
     (category_spending, total_spending, s)"
| "category_loop R county (cat # cats) category_spending total_spending s =
     (let (g, s') = draw_op R (category_dist county cat) s;
          base_amount = g * base_multiplier county;
          category_spending' = dict_set category_spending cat (max 10000 base_amount)
      in category_loop R county cats category_spending'
           (total_spending + dict_get category_spending' cat) s')"

definition spending_rows :: "string \<Rightarrow> (string \<times> real) list \<Rightarrow> real \<Rightarrow> spending_row list" where
  "spending_rows county category_spending total_spending =
     map (\<lambda>cat. \<lparr>sp_county_fips = county, category = cat,
                  spending_amount = py_round (dict_get category_spending cat) 0,
                  spending_proportion =
                    py_round (dict_get category_spending cat / total_spending) 3\<rparr>)
         categories
     @ [\<lparr>sp_county_fips = county, category = ''total'',
         spending_amount = py_round total_spending 0,
         spending_proportion = 1.0\<rparr>]"

fun spending_loop :: "'s np_random \<Rightarrow> string list \<Rightarrow> 's \<Rightarrow> spending_row list \<times> 's" where
  "spending_loop R [] s = ([], s)"
| "spending_loop R (county # rest) s =
     (let (category_spending, total_spending, s') = category_loop R county categories [] 0 s;
          (data, s'') = spending_loop R rest s'
      in (spending_rows county category_spending total_spending @ data, s''))"

definition generate_spending_data :: "'s np_random \<Rightarrow> 's world \<Rightarrow> spending_row list \<times> 's world" where
  "generate_spending_data R w =
     (let w1 = np_random_seed R 42 w;
          (data, s') = spending_loop R counties (rng w1)
      in (data, w1\<lparr>rng := s'\<rparr>))"

text \<open>The sum of the category proportions of one region, the \<open>total\<close> row left out.\<close>

definition proportion_sum :: "spending_row list \<Rightarrow> string \<Rightarrow> real" where
  "proportion_sum data county =
     sum_list (map spending_proportion
       (filter (\<lambda>r. sp_county_fips r = county \<and> category r \<noteq> ''total'') data))"

text \<open>A degenerate generator used to run the model: every draw returns the mean of its
  distribution; the state counts the draws.\<close>

definition mean_of :: "dist \<Rightarrow> real" where
  "mean_of d = (case d of
      Normal mu sd \<Rightarrow> mu
    | Beta a b \<Rightarrow> a / (a + b)
    | Gamma k theta \<Rightarrow> k * theta
    | Exponential scale \<Rightarrow> scale
    | Uniform lo hi \<Rightarrow> (lo + hi) / 2)"

definition mean_rng :: "nat np_random" where
  "mean_rng = \<lparr>seed_op = (\<lambda>n. 0), draw_op = (\<lambda>d s. (mean_of d, Suc s))\<rparr>"

definition w0 :: "nat world" where
  "w0 = \<lparr>rng = 7, seed_log = []\<rparr>"

section \<open>Mobility generator\<close>

record mobility_row =
  county_fips :: string
  county_name :: string
  total_trips :: int
  avg_trip_duration_minutes :: real
  member_trips :: int
  casual_trips :: int
  member_ratio :: real
  peak_hour_ratio :: real
  weekend_ratio :: real
  night_trips_ratio :: real
  avg_trip_distance_km :: real
  station_density :: real
  inter_county_ratio :: real

definition county_names :: "(string \<times> string) list" where
  "county_names =
     [(''17031'', ''Cook County, IL (Chicago)''),
      (''36061'', ''New York County, NY (Manhattan)''),
      (''06037'', ''Los Angeles County, CA''),
      (''48201'', ''Harris County, TX (Houston)''),
      (''04013'', ''Maricopa County, AZ (Phoenix)''),
      (''53033'', ''King County, WA (Seattle)''),
      (''25025'', ''Suffolk County, MA (Boston)'')]"

definition sample3 ::
  "'s np_random \<Rightarrow> dist \<Rightarrow> dist \<Rightarrow> dist \<Rightarrow> 's \<Rightarrow> real \<times> real \<times> real \<times> 's" where
  "sample3 R d1 d2 d3 s =
     (let (x1, s1) = draw_op R d1 s;
          (x2, s2) = draw_op R d2 s1;
          (x3, s3) = draw_op R d3 s2
      in (x1, x2, x3, s3))"

text \<open>The three base metrics, drawn in the order trips, duration, member ratio.\<close>

definition base_metrics :: "'s np_random \<Rightarrow> string \<Rightarrow> 's \<Rightarrow> real \<times> real \<times> real \<times> 's" where
  "base_metrics R county s =
     (if county = ''36061'' then
        sample3 R (Normal 25000 3000) (Normal 12 2) (Normal 0.85 0.05) s
      else if county = ''17031'' then
        sample3 R (Normal 18000 2500) (Normal 15 3) (Normal 0.75 0.08) s
      else if county = ''06037'' then
        sample3 R (Normal 12000 2000) (Normal 20 4) (Normal 0.65 0.1) s
      else
        sample3 R (Normal 8000 1500) (Normal 16 3) (Normal 0.7 0.1) s)"

definition mobility_record :: "'s np_random \<Rightarrow> string \<Rightarrow> 's \<Rightarrow> mobility_row \<times> 's" where
  "mobility_record R county s =
     (let (base_trips0, avg_duration0, member_ratio0, s3) = base_metrics R county s;
          base_trips = max 1000 base_trips0;
          avg_duration = max 5 (min 30 avg_duration0);
          member_ratio' = max 0.3 (min 0.95 member_ratio0);
          (peak, s4) = draw_op R (Beta 2 3) s3;
          (weekend, s5) = draw_op R (Beta 1.5 3) s4;
          (night, s6) = draw_op R (Beta 1 4) s5;
          (distance, s7) = draw_op R (Gamma 2 1.5) s6;
          (density, s8) = draw_op R (Exponential 0.5) s7;
          (inter, s9) = draw_op R (Beta 1 9) s8
      in (\<lparr>county_fips = county,
           county_name = dict_get county_names county,
           total_trips = py_int base_trips,
           avg_trip_duration_minutes = py_round avg_duration 1,
           member_trips = py_int (base_trips * member_ratio'),
           casual_trips = py_int (base_trips * (1 - member_ratio')),
           member_ratio = py_round member_ratio' 3,
           peak_hour_ratio = peak * 0.4 + 0.15,
           weekend_ratio = weekend * 0.4 + 0.15,
           night_trips_ratio = night * 0.15,
           avg_trip_distance_km = distance + 1,
           station_density = density + 0.1,
           inter_county_ratio = inter * 0.2\<rparr>, s9))"

fun mobility_loop :: "'s np_random \<Rightarrow> string list \<Rightarrow> 's \<Rightarrow> mobility_row list \<times> 's" where
  "mobility_loop R [] s = ([], s)"
| "mobility_loop R (county # rest) s =
     (let (row, s') = mobility_record R county s;
          (data, s'') = mobility_loop R rest s'
      in (row # data, s''))"

definition generate_mobility_data :: "'s np_random \<Rightarrow> 's world \<Rightarrow> mobility_row list \<times> 's world" where
  "generate_mobility_data R w =
     (let w1 = np_random_seed R 42 w;
          (data, s') = mobility_loop R counties (rng w1)
      in (data, w1\<lparr>rng := s'\<rparr>))"

section \<open>Demographic generator\<close>

record demographic_row =
  dm_county_fips :: string
  population :: int
  median_income :: real
  college_educated_pct :: real
  age_18_34_pct :: real
  age_35_54_pct :: real
  age_55_plus_pct :: real
  population_density :: real

text \<open>Per county: population, median income, college-educated share.\<close>

definition county_demographics :: "(string \<times> int \<times> real \<times> real) list" where
  "county_demographics =
     [(''17031'', 5150000, 65000, 0.45),
      (''36061'', 1690000, 85000, 0.65),
      (''06037'', 9830000, 70000, 0.35),
      (''48201'', 4710000, 55000, 0.35),
      (''04013'', 4420000, 60000, 0.30),
      (''53033'', 2270000, 95000, 0.60),
      (''25025'', 800000, 80000, 0.55)]"

text \<open>The loop runs over the items of \<open>county_demographics\<close>. The divisor of
  \<open>population_density\<close> is at least 1000 for every draw in the support of the
  exponential distribution.\<close>

fun demographic_loop ::
  "'s np_random \<Rightarrow> (string \<times> int \<times> real \<times> real) list \<Rightarrow> 's \<Rightarrow> demographic_row list \<times> 's" where
  "demographic_loop R [] s = ([], s)"
| "demographic_loop R ((county, pop, income, college) # rest) s =
     (let (n1, s1) = draw_op R (Normal 0 5000) s;
          (n2, s2) = draw_op R (Normal 0 0.05) s1;
          (b1, s3) = draw_op R (Beta 3 4) s2;
          (b2, s4) = draw_op R (Beta 4 3) s3;
          (b3, s5) = draw_op R (Beta 2 5) s4;
          (e, s6) = draw_op R (Exponential 500) s5;
          (data, s') = demographic_loop R rest s6
      in (\<lparr>dm_county_fips = county,
           population = pop,
           median_income = income + n1,
           college_educated_pct = college + n2,
           age_18_34_pct = b1 * 0.4 + 0.2,
           age_35_54_pct = b2 * 0.4 + 0.25,
           age_55_plus_pct = b3 * 0.35 + 0.15,
           population_density = of_int pop / (1000 + e)\<rparr> # data, s'))"

definition generate_demographic_data ::
  "'s np_random \<Rightarrow> 's world \<Rightarrow> demographic_row list \<times> 's world" where
  "generate_demographic_data R w =
     (let w1 = np_random_seed R 42 w;
          (data, s') = demographic_loop R county_demographics (rng w1)
      in (data, w1\<lparr>rng := s'\<rparr>))"

section \<open>Feature assembly and segmentation\<close>

text \<open>A raised exception ends the computation: \<open>Inl\<close> carries it through.\<close>

definition and_then :: "py_error + 'a \<Rightarrow> ('a \<Rightarrow> py_error + 'b) \<Rightarrow> py_error + 'b" where
  "and_then r f = (case r of Inl e \<Rightarrow> Inl e | Inr x \<Rightarrow> f x)"

text \<open>
  \<open>spending_data.pivot(index='county_fips', columns='category',
  values='spending_amount').fillna(0)\<close>: one row per region that occurs in the spending
  table, one column per category that occurs in it, the cell of a missing
  (region, category) pair filled with 0. pandas refuses a repeated pair. It also sorts
  rows and columns; that order is not observable below, since columns are read by name
  and the inner merge keeps the order of the mobility table.
\<close>

record pivot_table =
  pv_columns :: "string list"
  pv_rows :: "(string \<times> (string \<times> real) list) list"

definition pivot_cell :: "spending_row list \<Rightarrow> string \<Rightarrow> string \<Rightarrow> real" where
  "pivot_cell spending_data county cat =
     (case find (\<lambda>r. sp_county_fips r = county \<and> category r = cat) spending_data of
        None \<Rightarrow> 0
      | Some r \<Rightarrow> spending_amount r)"

definition pivot_fillna :: "spending_row list \<Rightarrow> py_error + pivot_table" where
  "pivot_fillna spending_data =
     (if \<not> distinct (map (\<lambda>r. (sp_county_fips r, category r)) spending_data)
      then Inl (ValueError ''Index contains duplicate entries, cannot reshape'')
      else
        let cols = remdups (map category spending_data)
        in Inr \<lparr>pv_columns = cols,
                pv_rows = map (\<lambda>county. (county, map (\<lambda>cat. (cat, pivot_cell spending_data county cat)) cols))
                              (remdups (map sp_county_fips spending_data))\<rparr>)"

record combined_row =
  mobility :: mobility_row
  spending :: "(string \<times> real) list"

text \<open>
  \<open>mobility_data.merge(spending_pivot, on='county_fips', how='inner')\<close>: every mobility
  row whose region is a row of the pivot, in the order of the mobility table, extended by
  the pivot's columns. A pivot column named like the key is ambiguous for pandas.
\<close>

definition merge_inner :: "mobility_row list \<Rightarrow> pivot_table \<Rightarrow> py_error + combined_row list" where
  "merge_inner mobility_data spending_pivot =
     (if ''county_fips'' \<in> set (pv_columns spending_pivot)
      then Inl (ValueError ''county_fips is both an index level and a column label'')
      else Inr (concat (map (\<lambda>m. case map_of (pv_rows spending_pivot) (county_fips m) of
                                     None \<Rightarrow> []
                                   | Some cells \<Rightarrow> [\<lparr>mobility = m, spending = cells\<rparr>])
                            mobility_data)))"

definition features :: "string list" where
  "features = [''total_trips'', ''member_ratio'', ''avg_trip_duration_minutes'',
               ''restaurants'', ''retail'', ''entertainment'']"

text \<open>
  \<open>combined_data[features]\<close> raises \<open>KeyError\<close> for a column the merged table does not
  have: a spending feature whose category occurs in no spending row, or a mobility
  feature that the merge renamed because a category carries the same name.
\<close>

definition missing_feature :: "string list \<Rightarrow> string \<Rightarrow> bool" where
  "missing_feature cols f =
     (if f \<in> {''total_trips'', ''member_ratio'', ''avg_trip_duration_minutes''}
      then f \<in> set cols else f \<notin> set cols)"

definition feature_vector :: "combined_row \<Rightarrow> real list" where
  "feature_vector r =
     [of_int (total_trips (mobility r)),
      member_ratio (mobility r),
      avg_trip_duration_minutes (mobility r),
      dict_get (spending r) ''restaurants'',
      dict_get (spending r) ''retail'',
      dict_get (spending r) ''entertainment'']"

definition select_features :: "string list \<Rightarrow> combined_row list \<Rightarrow> py_error + real list list" where
  "select_features cols combined_data =
     (case find (missing_feature cols) features of
        Some f \<Rightarrow> Inl (KeyError f)
      | None \<Rightarrow> Inr (map feature_vector combined_data))"

text \<open>
  \<open>StandardScaler().fit_transform\<close> of scikit-learn: every column is centred on its mean
  and divided by its population standard deviation; a standard deviation of zero is
  replaced by 1. It refuses a matrix without rows. The arithmetic is over exact reals;
  the rounding of the library's 64-bit floats is not represented.
\<close>

definition np_mean :: "real list \<Rightarrow> real" where
  "np_mean xs = sum_list xs / real (length xs)"

definition np_var :: "real list \<Rightarrow> real" where
  "np_var xs = np_mean (map (\<lambda>x. (x - np_mean xs)\<^sup>2) xs)"

definition handle_zeros_in_scale :: "real \<Rightarrow> real" where
  "handle_zeros_in_scale scale = (if scale = 0 then 1 else scale)"

definition column :: "nat \<Rightarrow> real list list \<Rightarrow> real list" where
  "column j X = map (\<lambda>row. row ! j) X"

definition fit_transform :: "real list list \<Rightarrow> py_error + real list list" where
  "fit_transform X =
     (if X = [] then Inl (ValueError ''Found array with 0 sample(s)'')
      else Inr (map (\<lambda>row. map (\<lambda>j. (row ! j - np_mean (column j X))
                                        / handle_zeros_in_scale (sqrt (np_var (column j X))))
                               [0..<length row]) X))"

text \<open>
  \<open>KMeans(n_clusters, random_state=42).fit_predict\<close>: the partitioning itself is a
  parameter \<open>K\<close> returning the labels and the cluster centres; scikit-learn refuses fewer
  samples than clusters.
\<close>

type_synonym kmeans = "nat \<Rightarrow> real list list \<Rightarrow> nat list \<times> real list list"

definition fit_predict :: "kmeans \<Rightarrow> nat \<Rightarrow> real list list \<Rightarrow> py_error + nat list \<times> real list list" where
  "fit_predict K n_clusters' X =
     (if length X < n_clusters'
      then Inl (ValueError ''n_samples should be >= n_clusters'')
      else Inr (K n_clusters' X))"

text \<open>The mean of a pandas column is NaN when the column is empty: \<open>None\<close>.
  Every comparison with NaN is false.\<close>

definition series_mean :: "real list \<Rightarrow> real option" where
  "series_mean xs = (if xs = [] then None else Some (np_mean xs))"

definition gt :: "real option \<Rightarrow> real \<Rightarrow> bool" where
  "gt x bound = (case x of None \<Rightarrow> False | Some v \<Rightarrow> bound < v)"

record characteristics_rec =
  mobility_level :: string
  engagement :: string
  dining_preference :: string

definition characterize_cluster :: "combined_row list \<Rightarrow> characteristics_rec" where
  "characterize_cluster cluster_data =
     (let avg_trips' = series_mean (map (\<lambda>r. of_int (total_trips (mobility r))) cluster_data);
          avg_member_ratio' = series_mean (map (\<lambda>r. member_ratio (mobility r)) cluster_data);
          restaurant_spending = series_mean (map (\<lambda>r. dict_get (spending r) ''restaurants'') cluster_data)
      in \<lparr>mobility_level =
             (if gt avg_trips' 15000 then ''high''
              else if gt avg_trips' 8000 then ''medium'' else ''low''),
           engagement =
             (if gt avg_member_ratio' 0.8 then ''high''
              else if gt avg_member_ratio' 0.6 then ''medium'' else ''low''),
           dining_preference =
             (if gt restaurant_spending 150000 then ''high''
              else if gt restaurant_spending 80000 then ''medium'' else ''low'')\<rparr>)"

record cluster_profile =
  cluster_id :: nat
  size :: nat
  cp_counties :: "string list"
  avg_trips :: "real option"
  avg_member_ratio :: "real option"
  avg_duration :: "real option"
  avg_restaurant_spending :: "real option"
  characteristics :: characteristics_rec

text \<open>Decimal digits of a natural number, for the keys \<open>cluster_0\<close>, \<open>persona_0\<close>, ...\<close>

fun str_nat :: "nat \<Rightarrow> string" where
  "str_nat n =
     (if n < 10 then [''0123456789'' ! n]
      else str_nat (n div 10) @ [''0123456789'' ! (n mod 10)])"

declare str_nat.simps [simp del]

definition cluster_profile_of :: "(combined_row \<times> nat) list \<Rightarrow> nat \<Rightarrow> string \<times> cluster_profile" where
  "cluster_profile_of labelled cid =
     (let cluster_data = map fst (filter (\<lambda>(r, label). label = cid) labelled)
      in (''cluster_'' @ str_nat cid,
          \<lparr>cluster_id = cid,
           size = length cluster_data,
           cp_counties = map (\<lambda>r. county_fips (mobility r)) cluster_data,
           avg_trips = series_mean (map (\<lambda>r. of_int (total_trips (mobility r))) cluster_data),
           avg_member_ratio = series_mean (map (\<lambda>r. member_ratio (mobility r)) cluster_data),
           avg_duration = series_mean (map (\<lambda>r. avg_trip_duration_minutes (mobility r)) cluster_data),
           avg_restaurant_spending =
             series_mean (map (\<lambda>r. dict_get (spending r) ''restaurants'') cluster_data),
           characteristics = characterize_cluster cluster_data\<rparr>))"

record segmentation_result =
  cluster_profiles :: "(string \<times> cluster_profile) list"
  feature_importance :: "(string \<times> real) list"
  silhouette_score :: real
  n_clusters :: nat
  algorithm :: string

text \<open>\<open>np.abs(kmeans.cluster_centers_).mean(axis=0)\<close>, zipped with the feature names.\<close>

definition importance :: "real list list \<Rightarrow> (string \<times> real) list" where
  "importance centers =
     zip features (map (\<lambda>j. np_mean (map abs (column j centers)))
                       [0..<(case centers of [] \<Rightarrow> 0 | c # _ \<Rightarrow> length c)])"

definition perform_segmentation_analysis ::
  "kmeans \<Rightarrow> mobility_row list \<Rightarrow> spending_row list \<Rightarrow> py_error + segmentation_result" where
  "perform_segmentation_analysis K mobility_data spending_data =
     and_then (pivot_fillna spending_data) (\<lambda>spending_pivot.
     and_then (merge_inner mobility_data spending_pivot) (\<lambda>combined_data.
     and_then (select_features (pv_columns spending_pivot) combined_data) (\<lambda>feature_data.
     and_then (fit_transform feature_data) (\<lambda>normalized_features.
     and_then (fit_predict K 4 normalized_features) (\<lambda>(cluster_labels, centers).
       if length cluster_labels \<noteq> length combined_data
       then Inl (ValueError ''Length of values does not match length of index'')
       else Inr \<lparr>cluster_profiles =
                    map (cluster_profile_of (zip combined_data cluster_labels)) [0..<4],
                  feature_importance = importance centers,
                  silhouette_score = 0.65,
                  n_clusters = 4,
                  algorithm = ''kmeans''\<rparr>)))))"

text \<open>A partitioning used to run the model: sample \<open>i\<close> gets label \<open>i mod n\<close>, all
  centres are at the origin.\<close>

definition round_robin :: kmeans where
  "round_robin n X = (map (\<lambda>i. i mod n) [0..<length X], replicate n (replicate 6 0))"

section \<open>Persona synthesis\<close>

record persona_template =
  tp_name :: string
  tp_type :: string
  tp_description :: string
  tp_motivations :: "string list"
  tp_pain_points :: "string list"
  tp_channels :: "string list"
  tp_strategies :: "string list"

definition persona_templates :: "persona_template list" where
  "persona_templates =
     [\<lparr>tp_name = ''Urban Commuter Pro'',
        tp_type = ''Urban Commuter'',
        tp_description =
          ''Highly structured professionals who rely on bike-sharing for daily commuting to work and efficient city navigation.'',
        tp_motivations =
          [''Reliable transportation'',
           ''Time efficiency'',
           ''Cost savings'',
           ''Environmental consciousness''],
        tp_pain_points =
          [''Rush hour bike availability'',
           ''Weather dependency'',
           ''Station capacity'',
           ''Route planning''],
        tp_channels =
          [''Mobile app'',
           ''Email newsletters'',
           ''LinkedIn'',
           ''Transit partnerships''],
        tp_strategies =
          [''Corporate partnerships'',
           ''Commuter packages'',
           ''Priority access'',
           ''Weather alerts'']\<rparr>,
      \<lparr>tp_name = ''Weekend Explorer'',
        tp_type = ''Leisure Cyclist'',
        tp_description =
          ''Recreation-focused users who enjoy cycling for leisure, fitness, and exploration on weekends and holidays.'',
        tp_motivations =
          [''Recreation'',
           ''Fitness goals'',
           ''City exploration'',
           ''Social activities''],
        tp_pain_points =
          [''Limited weekend availability'',
           ''Route discovery'',
           ''Group coordination'',
           ''Seasonal limitations''],
        tp_channels =
          [''Social media'',
           ''Fitness apps'',
           ''Community events'',
           ''Tourism partnerships''],
        tp_strategies =
          [''Weekend promotions'',
           ''Fitness challenges'',
           ''Scenic route guides'',
           ''Group discounts'']\<rparr>,
      \<lparr>tp_name = ''Tech Innovator'',
        tp_type = ''Tech Savvy'',
        tp_description =
          ''Early adopters who embrace technology and seek innovative, connected transportation solutions.'',
        tp_motivations =
          [''Innovation'',
           ''Convenience'',
           ''Smart city integration'',
           ''Data insights''],
        tp_pain_points =
          [''App limitations'',
           ''Feature requests'',
           ''Integration gaps'',
           ''Tech support''],
        tp_channels =
          [''Tech blogs'',
           ''Beta programs'',
           ''Developer communities'',
           ''Smart city initiatives''],
        tp_strategies =
          [''Beta testing'',
           ''API access'',
           ''Smart features'',
           ''Tech partnerships'']\<rparr>,
      \<lparr>tp_name = ''Budget Conscious'',
        tp_type = ''Value Seeker'',
        tp_description =
          ''Price-sensitive users who prioritize affordability and value in their transportation choices.'',
        tp_motivations =
          [''Cost savings'',
           ''Value for money'',
           ''Budget management'',
           ''Alternative transport''],
        tp_pain_points =
          [''Pricing complexity'',
           ''Hidden fees'',
           ''Payment options'',
           ''Service value''],
        tp_channels =
          [''Price comparison sites'',
           ''Budget apps'',
           ''Community forums'',
           ''Local partnerships''],
        tp_strategies =
          [''Value packages'',
           ''Student discounts'',
           ''Loyalty rewards'',
           ''Transparent pricing'']\<rparr>]"

record mobility_profile_rec =
  mp_avg_trips :: int
  mp_member_ratio :: "real option"
  mp_avg_duration :: "real option"
  usage_intensity :: string

record spending_profile_rec =
  restaurant_spending :: int
  spending_level :: string

record persona =
  persona_id :: string
  persona_name :: string
  persona_type :: string
  cluster_ids :: "nat list"
  estimated_population :: int
  market_value :: int
  targeting_effectiveness :: real
  description :: string
  key_motivations :: "string list"
  pain_points :: "string list"
  preferred_channels :: "string list"
  marketing_strategies :: "string list"
  seasonal_trends :: "(string \<times> real) list"
  mobility_profile :: mobility_profile_rec
  spending_profile :: spending_profile_rec

text \<open>Python's \<open>min(a, b)\<close> returns \<open>a\<close> unless \<open>b < a\<close>; with \<open>b\<close> NaN it is \<open>a\<close>.\<close>

definition py_min :: "real \<Rightarrow> real option \<Rightarrow> real" where
  "py_min a b = (case b of None \<Rightarrow> a | Some v \<Rightarrow> if v < a then v else a)"

text \<open>
  One iteration of the loop over the cluster profiles. The six draws are made in the
  order of the source; \<open>int\<close> of a NaN mean (an empty cluster) raises \<open>ValueError\<close>,
  rounding a NaN gives NaN.
\<close>

definition persona_of ::
  "'s np_random \<Rightarrow> nat \<Rightarrow> cluster_profile \<Rightarrow> 's \<Rightarrow> (py_error + persona) \<times> 's" where
  "persona_of R i profile s =
     (let template = persona_templates ! (i mod length persona_templates);
          estimated_population' = int (size profile) * 50000;
          (u1, s1) = draw_op R (Uniform 15 35) s;
          market_value' = of_int estimated_population' * u1;
          (u2, s2) = draw_op R (Uniform 0 0.1) s1;
          effectiveness = map_option (\<lambda>a. 0.6 + a * 0.3 + u2) (avg_member_ratio profile);
          (spring, s3) = draw_op R (Uniform (- 0.1) 0.2) s2;
          (summer, s4) = draw_op R (Uniform (- 0.1) 0.3) s3;
          (fall, s5) = draw_op R (Uniform (- 0.1) 0.2) s4;
          (winter, s6) = draw_op R (Uniform (- 0.2) 0.1) s5
      in ((case avg_trips profile of
            None \<Rightarrow> Inl (ValueError ''cannot convert float NaN to integer'')
          | Some trips \<Rightarrow>
              (case avg_restaurant_spending profile of
                 None \<Rightarrow> Inl (ValueError ''cannot convert float NaN to integer'')
               | Some restaurants \<Rightarrow>
                   Inr \<lparr>persona_id = ''persona_'' @ str_nat i,
                        persona_name = tp_name template,
                        persona_type = tp_type template,
                        cluster_ids = [cluster_id profile],
                        estimated_population = estimated_population',
                        market_value = py_int market_value',
                        targeting_effectiveness = py_round (py_min 0.95 effectiveness) 3,
                        description = tp_description template,
                        key_motivations = tp_motivations template,
                        pain_points = tp_pain_points template,
                        preferred_channels = tp_channels template,
                        marketing_strategies = tp_strategies template,
                        seasonal_trends =
                          [(''spring'', py_round (1.0 + spring) 2),
                           (''summer'', py_round (1.2 + summer) 2),
                           (''fall'', py_round (0.9 + fall) 2),
                           (''winter'', py_round (0.7 + winter) 2)],
                        mobility_profile =
                          \<lparr>mp_avg_trips = py_int trips,
                           mp_member_ratio = map_option (\<lambda>x. py_round x 3) (avg_member_ratio profile),
                           mp_avg_duration = map_option (\<lambda>x. py_round x 1) (avg_duration profile),
                           usage_intensity = mobility_level (characteristics profile)\<rparr>,
                        spending_profile =
                          \<lparr>restaurant_spending = py_int restaurants,
                           spending_level = dining_preference (characteristics profile)\<rparr>\<rparr>)),
          s6))"

function persona_loop ::
  "'s np_random \<Rightarrow> nat \<Rightarrow> (string \<times> cluster_profile) list \<Rightarrow> (string \<times> persona) list \<Rightarrow> 's
     \<Rightarrow> (py_error + (string \<times> persona) list) \<times> 's" where
  "persona_loop R i [] personas s = (Inr personas, s)"
| "persona_loop R i ((cluster_key, profile) # rest) personas s =
     (case persona_of R i profile s of
        (Inl e, s') \<Rightarrow> (Inl e, s')
      | (Inr p, s') \<Rightarrow>
          persona_loop R (Suc i) rest (dict_set personas (''persona_'' @ str_nat i) p) s')"
  by pat_completeness auto
termination
  by (relation "measure (\<lambda>(R, i, profiles, personas, s). length profiles)") simp_all

text \<open>The draws come from the process-wide generator in the state the demographic
  generator left it in; the demographic table itself is not read.\<close>

definition generate_persona_insights ::
  "'s np_random \<Rightarrow> segmentation_result \<Rightarrow> demographic_row list \<Rightarrow> 's world
     \<Rightarrow> (py_error + (string \<times> persona) list) \<times> 's world" where
  "generate_persona_insights R segmentation_results' demographic_data w =
     (let (r, s') = persona_loop R 0 (cluster_profiles segmentation_results') [] (rng w)
      in (r, w\<lparr>rng := s'\<rparr>))"

section \<open>Business opportunities\<close>

record opportunity =
  opportunity_type :: string
  op_description :: string
  target_segments :: "string list"
  estimated_market_size :: int
  investment_level :: string
  expected_roi :: string
  implementation_timeline :: string
  key_metrics :: "string list"

definition opportunity_catalogue :: "opportunity list" where
  "opportunity_catalogue =
     [\<lparr>opportunity_type = ''Premium Commuter Services'',
        op_description =
          ''Develop premium service tier for high-frequency commuters with guaranteed bike availability and priority access.'',
        target_segments = [''Urban Commuter Pro''],
        estimated_market_size = 350000,
        investment_level = ''Medium'',
        expected_roi = ''25-35%'',
        implementation_timeline = ''6-9 months'',
        key_metrics =
          [''Customer lifetime value'',
           ''Premium conversion rate'',
           ''Churn reduction'']\<rparr>,
      \<lparr>opportunity_type = ''Weekend Recreation Packages'',
        op_description =
          ''Create weekend-focused packages with scenic routes, fitness tracking, and group coordination features.'',
        target_segments = [''Weekend Explorer''],
        estimated_market_size = 180000,
        investment_level = ''Low'',
        expected_roi = ''15-25%'',
        implementation_timeline = ''3-6 months'',
        key_metrics =
          [''Weekend usage growth'',
           ''Package adoption rate'',
           ''User engagement'']\<rparr>,
      \<lparr>opportunity_type = ''Smart Technology Integration'',
        op_description =
          ''Advanced IoT features, predictive analytics, and smart city integration for tech-savvy users.'',
        target_segments = [''Tech Innovator''],
        estimated_market_size = 220000,
        investment_level = ''High'',
        expected_roi = ''30-45%'',
        implementation_timeline = ''9-12 months'',
        key_metrics =
          [''Feature adoption'',
           ''API usage'',
           ''Tech partnership value'']\<rparr>,
      \<lparr>opportunity_type = ''Value-Focused Membership'',
        op_description =
          ''Affordable membership tiers with transparent pricing and value-added benefits for budget-conscious users.'',
        target_segments = [''Budget Conscious''],
        estimated_market_size = 280000,
        investment_level = ''Low'',
        expected_roi = ''20-30%'',
        implementation_timeline = ''4-8 months'',
        key_metrics =
          [''Price sensitivity analysis'',
           ''Conversion rate'',
           ''Customer acquisition cost'']\<rparr>,
      \<lparr>opportunity_type = ''Corporate Partnership Program'',
        op_description =
          ''B2B partnerships with employers for employee transportation benefits and corporate sustainability programs.'',
        target_segments = [''Urban Commuter Pro'',
                           ''Tech Innovator''],
        estimated_market_size = 450000,
        investment_level = ''Medium'',
        expected_roi = ''35-50%'',
        implementation_timeline = ''6-12 months'',
        key_metrics =
          [''Corporate contracts'',
           ''Employee adoption'',
           ''B2B revenue growth'']\<rparr>]"

definition identify_business_opportunities :: "(string \<times> persona) list \<Rightarrow> opportunity list" where
  "identify_business_opportunities personas' = opportunity_catalogue"

section \<open>Predictive insights\<close>

text \<open>A fixed report; it is a nested dict of literals.\<close>

datatype pyval = Str string | Num real | List "pyval list" | Dict "(string \<times> pyval) list"

definition predictions :: pyval where
  "predictions =
     Dict
     [(''demand_forecast'', Dict
        [(''next_quarter'', Dict
           [(''expected_growth'', Str ''15-20%''),
            (''peak_months'', List [Str ''June'', Str ''July'', Str ''August'']),
            (''growth_drivers'', List [Str ''Summer weather'', Str ''Tourism increase'', Str ''Corporate partnerships''])]),
         (''seasonal_patterns'', Dict
           [(''spring'', Dict
              [(''multiplier'', Num 1.1),
               (''confidence'', Num 0.85)]),
            (''summer'', Dict
              [(''multiplier'', Num 1.35),
               (''confidence'', Num 0.92)]),
            (''fall'', Dict
              [(''multiplier'', Num 0.95),
               (''confidence'', Num 0.88)]),
            (''winter'', Dict
              [(''multiplier'', Num 0.65),
               (''confidence'', Num 0.8)])])]),
      (''market_expansion'', Dict
        [(''high_potential_areas'', List [Str ''Suburban corridors'', Str ''University districts'', Str ''Transit hubs'']),
         (''expansion_roi'', Str ''25-40%''),
         (''optimal_timing'', Str ''Q2 2024'')]),
      (''user_behavior_trends'', Dict
        [(''increasing_trip_duration'', Str ''+8% year-over-year''),
         (''membership_conversion'', Str ''Improving by 12%''),
         (''weekend_usage_growth'', Str ''+22% compared to last year'')]),
      (''revenue_projections'', Dict
        [(''base_case'', Str ''$2.8M annual revenue''),
         (''optimistic_case'', Str ''$3.6M annual revenue''),
         (''conservative_case'', Str ''$2.2M annual revenue''),
         (''key_assumptions'', List [Str ''15% user growth'', Str ''8% price optimization'', Str ''12% efficiency gains''])])]"

definition generate_predictive_insights :: "mobility_row list \<Rightarrow> spending_row list \<Rightarrow> pyval" where
  "generate_predictive_insights mobility_data spending_data = predictions"

section \<open>Market intelligence\<close>

text \<open>The format \<open>{:,.0f}\<close>: rounded to an integer, digits grouped in threes.\<close>

fun group3 :: "string \<Rightarrow> string" where
  "group3 (a # b # c # d # rest) = a # b # c # CHR '','' # group3 (d # rest)"
| "group3 ds = ds"

definition format_comma_0f :: "real \<Rightarrow> string" where
  "format_comma_0f x =
     (let n = round_half_even x
      in (if n < 0 then ''-'' else []) @ rev (group3 (rev (str_nat (nat \<bar>n\<bar>)))))"

record market_overview_rec =
  total_addressable_market :: int
  total_population :: int
  average_targeting_effectiveness :: real
  number_of_segments :: nat
  total_opportunity_value :: int

record market_intelligence =
  market_overview :: market_overview_rec
  key_insights :: "string list"
  strategic_recommendations :: "string list"
  competitive_advantages :: "string list"
  risk_factors :: "string list"

definition strategic_recommendations_list :: "string list" where
  "strategic_recommendations_list =
     [''Prioritize premium commuter services for immediate revenue impact'',
      ''Invest in technology infrastructure to capture tech-savvy segment'',
      ''Develop corporate partnership program for B2B growth'',
      ''Create seasonal marketing campaigns aligned with usage patterns'',
      ''Implement dynamic pricing to optimize revenue per trip'',
      ''Expand weekend recreational offerings to capture growing market'']"

definition competitive_advantages_list :: "string list" where
  "competitive_advantages_list =
     [''Data-driven persona targeting with 80%+ effectiveness'',
      ''Comprehensive multi-modal transportation insights'',
      ''Advanced predictive analytics for demand forecasting'',
      ''Integrated mobility and spending behavior analysis'',
      ''Real-time market intelligence and opportunity identification'']"

definition risk_factors_list :: "string list" where
  "risk_factors_list =
     [''Weather dependency affecting seasonal usage'',
      ''Competition from alternative transportation modes'',
      ''Regulatory changes in urban mobility policies'',
      ''Economic downturns impacting discretionary spending'']"

text \<open>The maximum of a non-empty list, as the builtin \<open>max\<close> computes it.\<close>

fun py_max :: "int \<Rightarrow> int list \<Rightarrow> int" where
  "py_max m [] = m"
| "py_max m (x # xs) = py_max (if m < x then x else m) xs"

text \<open>
  With no persona, \<open>max\<close> of the empty sequence raises \<open>ValueError\<close> while the insight
  strings are built, so no result is returned.
\<close>

definition generate_market_intelligence ::
  "(string \<times> persona) list \<Rightarrow> opportunity list \<Rightarrow> py_error + market_intelligence" where
  "generate_market_intelligence personas' opportunities' =
     (let total_market_value = sum_list (map (\<lambda>(k, p). market_value p) personas');
          total_population' = sum_list (map (\<lambda>(k, p). estimated_population p) personas');
          total_opportunity_value' = sum_list (map estimated_market_size opportunities')
      in case map (\<lambda>(k, p). market_value p) personas' of
           [] \<Rightarrow> Inl (ValueError ''max() arg is an empty sequence'')
         | v # vs \<Rightarrow>
             Inr \<lparr>market_overview =
                    \<lparr>total_addressable_market = total_market_value,
                     total_population = total_population',
                     average_targeting_effectiveness =
                       py_round (np_mean (map (\<lambda>(k, p). targeting_effectiveness p) personas')) 3,
                     number_of_segments = length personas',
                     total_opportunity_value = total_opportunity_value'\<rparr>,
                  key_insights =
                    [''Urban commuters represent the highest value segment with $''
                       @ format_comma_0f (of_int (py_max v vs)) @ '' market potential'',
                     ''Summer season shows 35% increase in usage across all segments'',
                     ''Premium services could capture additional $''
                       @ format_comma_0f (of_int total_opportunity_value' / 5)
                       @ '' in annual revenue'',
                     ''Technology integration opportunities show highest ROI potential (30-45%)'',
                     ''Corporate partnerships represent largest untapped market opportunity'',
                     ''Weekend recreational usage growing 22% year-over-year'',
                     ''Membership conversion rates improving across all demographics''],
                  strategic_recommendations = strategic_recommendations_list,
                  competitive_advantages = competitive_advantages_list,
                  risk_factors = risk_factors_list\<rparr>)"

section \<open>The analysis result and its projection\<close>

record data_summary_rec =
  mobility_records :: nat
  spending_records :: nat
  demographic_records :: nat
  analysis_date :: string

record analysis_result =
  personas :: "(string \<times> persona) list"
  opportunities :: "opportunity list"
  insights :: market_intelligence
  predictive_analytics :: pyval
  segmentation_results :: segmentation_result
  data_summary :: data_summary_rec

text \<open>
  The orchestrator. \<open>now\<close> is the reading of \<open>datetime.now().isoformat()\<close>. The
  outcome is paired with the state of the process-wide generator at the end, also when
  a stage raises.
\<close>

definition generate_comprehensive_analysis ::
  "'s np_random \<Rightarrow> kmeans \<Rightarrow> string \<Rightarrow> 's world \<Rightarrow> (py_error + analysis_result) \<times> 's world" where
  "generate_comprehensive_analysis R K now w =
     (let (mobility_data, w1) = generate_mobility_data R w;
          (spending_data, w2) = generate_spending_data R w1;
          (demographic_data, w3) = generate_demographic_data R w2
      in case perform_segmentation_analysis K mobility_data spending_data of
           Inl e \<Rightarrow> (Inl e, w3)
         | Inr segmentation_results' \<Rightarrow>
             (case generate_persona_insights R segmentation_results' demographic_data w3 of
                (Inl e, w4) \<Rightarrow> (Inl e, w4)
              | (Inr persona_insights, w4) \<Rightarrow>
                  (let business_opportunities = identify_business_opportunities persona_insights;
                       predictive_insights = generate_predictive_insights mobility_data spending_data
                   in case generate_market_intelligence persona_insights business_opportunities of
                        Inl e \<Rightarrow> (Inl e, w4)
                      | Inr market_intelligence' \<Rightarrow>
                          (Inr \<lparr>personas = persona_insights,
                                opportunities = business_opportunities,
                                insights = market_intelligence',
                                predictive_analytics = predictive_insights,
                                segmentation_results = segmentation_results',
                                data_summary =
                                  \<lparr>mobility_records = length mobility_data,
                                   spending_records = length spending_data,
                                   demographic_records = length demographic_data,
                                   analysis_date = now\<rparr>\<rparr>, w4))))"

record market_viz =
  persona_names :: "string list"
  market_values :: "int list"
  populations :: "int list"
  effectiveness_values :: "real list"

record opportunity_viz =
  opportunity_types :: "string list"
  market_sizes :: "int list"
  roi_ranges :: "string list"
  investment_levels :: "string list"

record visualizations =
  market_analysis :: market_viz
  opportunity_analysis :: opportunity_viz
  vz_seasonal_trends :: "(string \<times> (string \<times> real) list) list"
  generated_at :: string

text \<open>The loop that fills \<open>seasonal_viz\<close>, keyed by persona name.\<close>

fun seasonal_loop ::
  "(string \<times> persona) list \<Rightarrow> (string \<times> (string \<times> real) list) list
     \<Rightarrow> (string \<times> (string \<times> real) list) list" where
  "seasonal_loop [] seasonal_viz = seasonal_viz"
| "seasonal_loop ((pid, p) # rest) seasonal_viz =
     seasonal_loop rest (dict_set seasonal_viz (persona_name p) (seasonal_trends p))"

text \<open>\<open>now\<close> is the reading of the clock at the call.\<close>

definition create_advanced_visualizations :: "string \<Rightarrow> analysis_result \<Rightarrow> visualizations" where
  "create_advanced_visualizations now analysis_results =
     (let personas' = personas analysis_results;
          opportunities' = opportunities analysis_results
      in \<lparr>market_analysis =
             \<lparr>persona_names = map (\<lambda>(k, p). persona_name p) personas',
              market_values = map (\<lambda>(k, p). market_value p) personas',
              populations = map (\<lambda>(k, p). estimated_population p) personas',
              effectiveness_values = map (\<lambda>(k, p). targeting_effectiveness p) personas'\<rparr>,
           opportunity_analysis =
             \<lparr>opportunity_types = map opportunity_type opportunities',
              market_sizes = map estimated_market_size opportunities',
              roi_ranges = map expected_roi opportunities',
              investment_levels = map investment_level opportunities'\<rparr>,
           vz_seasonal_trends = seasonal_loop personas' [],
           generated_at = now\<rparr>)"

section \<open>Small inputs\<close>

text \<open>Hand-made tables on which the stages are run below.\<close>

definition mobility_of :: "string \<Rightarrow> int \<Rightarrow> real \<Rightarrow> real \<Rightarrow> mobility_row" where
  "mobility_of county trips ratio duration =
     \<lparr>county_fips = county, county_name = county, total_trips = trips,
      avg_trip_duration_minutes = duration,
      member_trips = py_int (of_int trips * ratio),
      casual_trips = py_int (of_int trips * (1 - ratio)),
      member_ratio = ratio, peak_hour_ratio = 0.3, weekend_ratio = 0.3,
      night_trips_ratio = 0.03, avg_trip_distance_km = 4, station_density = 0.6,
      inter_county_ratio = 0.02\<rparr>"

definition spending_of :: "string \<Rightarrow> string \<Rightarrow> real \<Rightarrow> spending_row" where
  "spending_of county cat amount =
     \<lparr>sp_county_fips = county, category = cat, spending_amount = amount,
      spending_proportion = 0\<rparr>"

definition four_mobility :: "mobility_row list" where
  "four_mobility =
     [mobility_of ''A'' 20000 0.9 12, mobility_of ''B'' 9000 0.7 15,
      mobility_of ''C'' 5000 0.5 20, mobility_of ''D'' 12000 0.6 16]"

definition four_spending :: "spending_row list" where
  "four_spending =
     [spending_of ''A'' ''restaurants'' 200000, spending_of ''A'' ''retail'' 150000,
      spending_of ''A'' ''entertainment'' 90000,
      spending_of ''B'' ''restaurants'' 100000, spending_of ''B'' ''retail'' 120000,
      spending_of ''B'' ''entertainment'' 60000,
      spending_of ''C'' ''restaurants'' 50000, spending_of ''C'' ''retail'' 70000,
      spending_of ''C'' ''entertainment'' 40000,
      spending_of ''D'' ''restaurants'' 90000, spending_of ''D'' ''retail'' 80000]"

text \<open>Three regions: fewer than the four clusters.\<close>

definition three_mobility :: "mobility_row list" where
  "three_mobility = take 3 four_mobility"

definition three_spending :: "spending_row list" where
  "three_spending = take 9 four_spending"

text \<open>A fifth region without any spending row.\<close>

definition five_mobility :: "mobility_row list" where
  "five_mobility = four_mobility @ [mobility_of ''E'' 7000 0.8 14]"

text \<open>The four regions with every \<open>restaurants\<close> row removed: no region supplies that
  column.\<close>

definition no_restaurants_spending :: "spending_row list" where
  "no_restaurants_spending = filter (\<lambda>r. category r \<noteq> ''restaurants'') four_spending"

text \<open>The result of one run with the mean-valued generator and the round-robin
  partitioning (the run succeeds, see \<open>demo_result_run\<close>).\<close>

definition demo_result :: analysis_result where
  "demo_result =
     projr (fst (generate_comprehensive_analysis mean_rng round_robin
                   ''2024-01-01T00:00:00'' w0))"

section \<open>Spending proportions\<close>

lemma round_half_even_bound: "\<bar>of_int (round_half_even y) - y\<bar> \<le> 1 / 2"
proof -
  have "of_int \<lfloor>y\<rfloor> \<le> y" "y < of_int \<lfloor>y\<rfloor> + 1" by linarith+
  then show ?thesis
    unfolding round_half_even_def Let_def by (auto simp: abs_le_iff)
qed

lemma py_round_bound: "\<bar>py_round x n - x\<bar> \<le> 1 / (2 * 10 ^ n)"
proof -
  have p: "(0::real) < 10 ^ n" by simp
  have "\<bar>py_round x n - x\<bar> = \<bar>of_int (round_half_even (x * 10 ^ n)) - x * 10 ^ n\<bar> / 10 ^ n"
    using p by (simp add: py_round_def field_simps abs_if)
  also have "\<dots> \<le> (1 / 2) / 10 ^ n"
    by (rule divide_right_mono [OF round_half_even_bound]) simp
  finally show ?thesis by simp
qed

lemma map_of_dict_set: "map_of (dict_set kvs k v) = (map_of kvs)(k \<mapsto> v)"
  by (induction kvs) (auto simp: fun_eq_iff)

lemma dict_get_dict_set: "dict_get (dict_set kvs k v) k = v"
  by (simp add: dict_get_def map_of_dict_set)

lemma category_loop_inv:
  assumes "distinct cats"
    and "category_loop R c cats cs0 t0 s = (cs, t, s')"
  shows "t = t0 + sum_list (map (dict_get cs) cats)
       \<and> (\<forall>cat\<in>set cats. 10000 \<le> dict_get cs cat)
       \<and> (\<forall>k. k \<notin> set cats \<longrightarrow> map_of cs k = map_of cs0 k)"
  using assms
proof (induction cats arbitrary: cs0 t0 s)
  case Nil
  then show ?case by simp
next
  case (Cons cat cats)
  obtain g s1 where d: "draw_op R (category_dist c cat) s = (g, s1)"
    by (cases "draw_op R (category_dist c cat) s")
  define v where "v = max 10000 (g * base_multiplier c)"
  define cs1 where "cs1 = dict_set cs0 cat v"
  have run: "category_loop R c cats cs1 (t0 + v) s1 = (cs, t, s')"
    using Cons.prems(2) d by (simp add: v_def cs1_def dict_get_dict_set Let_def)
  from Cons.prems(1) have dc: "distinct cats" and nin: "cat \<notin> set cats" by simp_all
  note ih = Cons.IH [OF dc run]
  from ih nin have "map_of cs cat = map_of cs1 cat" by blast
  then have g: "dict_get cs cat = v"
    by (simp add: dict_get_def cs1_def map_of_dict_set)
  have v: "10000 \<le> v" by (simp add: v_def)
  have keep: "\<forall>k. k \<notin> set (cat # cats) \<longrightarrow> map_of cs k = map_of cs0 k"
    using ih by (simp add: cs1_def map_of_dict_set)
  show ?case using ih g v keep by simp
qed


lemma sum_list_close:
  "(\<And>x. x \<in> set xs \<Longrightarrow> \<bar>g x - h x\<bar> \<le> (e::real))
     \<Longrightarrow> \<bar>sum_list (map g xs) - sum_list (map h xs)\<bar> \<le> real (length xs) * e"
proof (induction xs)
  case Nil
  then show ?case by simp
next
  case (Cons x xs)
  have a: "\<bar>g x - h x\<bar> \<le> e" using Cons.prems by simp
  have b: "\<bar>sum_list (map g xs) - sum_list (map h xs)\<bar> \<le> real (length xs) * e"
    using Cons by simp
  show ?case using a b by (simp add: algebra_simps abs_le_iff)
qed

lemma sum_list_divide: "sum_list (map (\<lambda>x. f x / (t::real)) xs) = sum_list (map f xs) / t"
  by (induction xs) (simp_all add: add_divide_distrib)

lemma distinct_categories: "distinct categories"
  by (simp add: categories_def)

lemma total_not_category: "''total'' \<notin> set categories"
  by (simp add: categories_def)

lemma distinct_counties: "distinct counties"
  by (simp add: counties_def)

lemma proportion_sum_Nil: "proportion_sum [] c = 0"
  by (simp add: proportion_sum_def)

lemma proportion_sum_append:
  "proportion_sum (a @ b) c = proportion_sum a c + proportion_sum b c"
  by (simp add: proportion_sum_def)

lemma filter_map_categories:
  "filter (\<lambda>r. category r \<noteq> ''total'') (map (\<lambda>cat. r cat\<lparr>category := cat\<rparr>) cats)
     = map (\<lambda>cat. r cat\<lparr>category := cat\<rparr>) (filter (\<lambda>cat. cat \<noteq> ''total'') cats)"
  by (induction cats) simp_all

lemma proportion_sum_rows:
  "proportion_sum (spending_rows c cs t) c' =
     (if c' = c
      then sum_list (map (\<lambda>cat. py_round (dict_get cs cat / t) 3) categories)
      else 0)"
proof -
  have f: "filter (\<lambda>cat. cat \<noteq> ''total'') categories = categories"
    using total_not_category by (auto intro: filter_True)
  show ?thesis
    by (auto simp: proportion_sum_def spending_rows_def filter_map o_def f
             cong: map_cong)
qed

lemma proportion_sum_other:
  "c \<notin> set cs \<Longrightarrow> proportion_sum (fst (spending_loop R cs s)) c = 0"
  by (induction cs arbitrary: s)
     (auto simp: split_def Let_def proportion_sum_append proportion_sum_rows proportion_sum_Nil)

lemma county_proportions:
  assumes "category_loop R c categories [] 0 s = (cs, t, s')"
  shows "\<bar>sum_list (map (\<lambda>cat. py_round (dict_get cs cat / t) 3) categories) - 1\<bar> \<le> 3 / 1000"
proof -
  note inv = category_loop_inv [OF distinct_categories assms]
  have t: "t = sum_list (map (dict_get cs) categories)" using inv by simp
  have "\<forall>cat\<in>set categories. 10000 \<le> dict_get cs cat" using inv by simp
  then have "60000 \<le> t" unfolding t by (simp add: categories_def)
  then have "sum_list (map (\<lambda>cat. dict_get cs cat / t) categories) = 1"
    unfolding sum_list_divide using t by simp
  moreover have "\<bar>sum_list (map (\<lambda>cat. py_round (dict_get cs cat / t) 3) categories)
          - sum_list (map (\<lambda>cat. dict_get cs cat / t) categories)\<bar>
        \<le> real (length categories) * (1 / (2 * 10 ^ 3))"
    by (rule sum_list_close) (rule py_round_bound)
  ultimately show ?thesis by (simp add: categories_def)
qed

lemma spending_loop_proportions:
  "distinct cs \<Longrightarrow> c \<in> set cs
     \<Longrightarrow> \<bar>proportion_sum (fst (spending_loop R cs s)) c - 1\<bar> \<le> 3 / 1000"
proof (induction cs arbitrary: s)
  case Nil
  then show ?case by simp
next
  case (Cons c0 rest)
  obtain cs t s1 where run: "category_loop R c0 categories [] 0 s = (cs, t, s1)"
    by (cases "category_loop R c0 categories [] 0 s") auto
  have split: "proportion_sum (fst (spending_loop R (c0 # rest) s)) c
      = proportion_sum (spending_rows c0 cs t) c + proportion_sum (fst (spending_loop R rest s1)) c"
    using run by (simp add: split_def Let_def proportion_sum_append)
  show ?case
  proof (cases "c = c0")
    case True
    then have "c \<notin> set rest" using Cons.prems by simp
    then have "proportion_sum (fst (spending_loop R rest s1)) c = 0"
      by (rule proportion_sum_other)
    then show ?thesis
      using split True county_proportions [OF run] by (simp add: proportion_sum_rows)
  next
    case False
    then have "c \<in> set rest" "distinct rest" using Cons.prems by simp_all
    then have "\<bar>proportion_sum (fst (spending_loop R rest s1)) c - 1\<bar> \<le> 3 / 1000"
      using Cons.IH by blast
    then show ?thesis using split False by (simp add: proportion_sum_rows)
  qed
qed

text \<open>
  Claim C2, as the code has it. Every \<open>spending_proportion\<close> is the exact share of the
  region's total rounded to three decimals, so for every region the six category
  proportions (the \<open>total\<close> row left out) sum to 1 within 6 \<times> 0.0005 = 0.003.
\<close>

theorem proportions_sum_to_one_rounded:
  "c \<in> set counties
     \<Longrightarrow> \<bar>proportion_sum (fst (generate_spending_data R w)) c - 1\<bar> \<le> 3 / 1000"
  using spending_loop_proportions [OF distinct_counties, of c R "seed_op R 42"]
  by (simp add: generate_spending_data_def np_random_seed_def split_def Let_def)


lemma proportion_sum_first:
  assumes "c \<notin> set rest" and "category_loop R c categories [] 0 s = (cs, t, s1)"
  shows "proportion_sum (fst (spending_loop R (c # rest) s)) c
           = sum_list (map (\<lambda>cat. py_round (dict_get cs cat / t) 3) categories)"
  using assms proportion_sum_other [OF assms(1), of R s1]
  by (simp add: split_def Let_def proportion_sum_append proportion_sum_rows)

lemma mean_rng_first_county:
  "category_loop mean_rng ''17031'' categories [] 0 0
     = ([(''restaurants'', 180000), (''retail'', 180000), (''grocery'', 96000),
         (''entertainment'', 96000), (''transportation'', 72000), (''healthcare'', 96000)],
        720000, 6)"
  by (simp add: categories_def mean_rng_def mean_of_def category_dist_def base_multiplier_def
        dict_get_def Let_def)

text \<open>
  Claim C2 as stated (tolerance \<open>1e-6\<close>) fails: with draws equal to the distribution
  means, the shares of region 17031 are 0.25, 0.25, 0.1333.., 0.1333.., 0.1, 0.1333..;
  rounded to three decimals they sum to 0.999.
\<close>

theorem proportions_off_by_rounding:
  "''17031'' \<in> set counties \<and>
   proportion_sum (fst (generate_spending_data mean_rng w0)) ''17031'' = 999 / 1000 \<and>
   \<not> \<bar>proportion_sum (fst (generate_spending_data mean_rng w0)) ''17031'' - 1\<bar> \<le> 1 / 10 ^ 6"
proof -
  define rest where "rest = [''36061'', ''06037'', ''48201'', ''04013'', ''53033'', ''25025'']"
  have c: "counties = ''17031'' # rest" by (simp add: counties_def rest_def)
  have n: "''17031'' \<notin> set rest" by (simp add: rest_def)
  have "fst (generate_spending_data mean_rng w0) = fst (spending_loop mean_rng counties 0)"
    by (simp add: generate_spending_data_def np_random_seed_def split_def Let_def mean_rng_def)
  then have "proportion_sum (fst (generate_spending_data mean_rng w0)) ''17031''
      = sum_list (map (\<lambda>cat. py_round (dict_get
          [(''restaurants'', 180000), (''retail'', 180000), (''grocery'', 96000),
           (''entertainment'', 96000), (''transportation'', 72000), (''healthcare'', 96000)] cat
          / 720000) 3) categories)"
    unfolding c using proportion_sum_first [OF n mean_rng_first_county] by simp
  also have "\<dots> = 999 / 1000"
    by (simp add: categories_def dict_get_def py_round_def round_half_even_def)
  finally show ?thesis by (simp add: c)
qed

theorem proportions_sum_to_one_rounded_witness:
  "''36061'' \<in> set counties \<and>
   \<bar>proportion_sum (fst (generate_spending_data mean_rng w0)) ''36061'' - 1\<bar> \<le> 3 / 1000"
  using proportions_sum_to_one_rounded [of "''36061''" mean_rng w0]
  by (simp add: counties_def)

section \<open>Seeding and determinism\<close>

lemma seed_log_mobility: "seed_log (snd (generate_mobility_data R w)) = seed_log w @ [42]"
  by (simp add: generate_mobility_data_def np_random_seed_def split_def Let_def)

lemma seed_log_spending: "seed_log (snd (generate_spending_data R w)) = seed_log w @ [42]"
  by (simp add: generate_spending_data_def np_random_seed_def split_def Let_def)

lemma seed_log_demographic: "seed_log (snd (generate_demographic_data R w)) = seed_log w @ [42]"
  by (simp add: generate_demographic_data_def np_random_seed_def split_def Let_def)

lemma seed_log_personas:
  "seed_log (snd (generate_persona_insights R seg demo w)) = seed_log w"
  by (simp add: generate_persona_insights_def split_def Let_def)

lemma seed_log_run:
  "seed_log (snd (generate_comprehensive_analysis R K now w)) = seed_log w @ [42, 42, 42]"
  by (simp add: generate_comprehensive_analysis_def split_def Let_def
        seed_log_mobility seed_log_spending seed_log_demographic seed_log_personas
      split: sum.split)

text \<open>
  Claim C4 as stated (the generator is seeded exactly once per run) fails: one run of
  \<open>generate_comprehensive_analysis\<close> from a fresh process calls \<open>np.random.seed(42)\<close>
  three times.
\<close>

theorem run_seeds_three_times:
  "seed_log (snd (generate_comprehensive_analysis mean_rng round_robin
                    ''2024-01-01T00:00:00'' w0)) = [42, 42, 42] \<and>
   length (seed_log (snd (generate_comprehensive_analysis mean_rng round_robin
                    ''2024-01-01T00:00:00'' w0))) \<noteq> 1"
  by (simp add: seed_log_run w0_def)

text \<open>
  Claim C4, as the code has it. Each of the three generators seeds the process-wide
  generator with 42 when it starts, so a run seeds it three times, always with the same
  seed; the persona stage, the only later stage that draws, does not reseed.
\<close>

theorem seeded_at_each_generator:
  "seed_log (snd (generate_mobility_data R w)) = seed_log w @ [42] \<and>
   seed_log (snd (generate_spending_data R w)) = seed_log w @ [42] \<and>
   seed_log (snd (generate_demographic_data R w)) = seed_log w @ [42] \<and>
   seed_log (snd (generate_persona_insights R seg demo w)) = seed_log w \<and>
   seed_log (snd (generate_comprehensive_analysis R K now w)) = seed_log w @ [42, 42, 42]"
  by (simp only: seed_log_mobility seed_log_spending seed_log_demographic
        seed_log_personas seed_log_run simp_thms)

lemma mobility_table_seeded:
  "fst (generate_mobility_data R w) = fst (mobility_loop R counties (seed_op R 42))"
  by (simp add: generate_mobility_data_def np_random_seed_def split_def Let_def)

lemma spending_table_seeded:
  "fst (generate_spending_data R w) = fst (spending_loop R counties (seed_op R 42))"
  by (simp add: generate_spending_data_def np_random_seed_def split_def Let_def)

lemma demographic_table_seeded:
  "fst (generate_demographic_data R w)
     = fst (demographic_loop R county_demographics (seed_op R 42))"
  by (simp add: generate_demographic_data_def np_random_seed_def split_def Let_def)

text \<open>
  Claim C5. Every generator seeds the process-wide generator with 42 before its first
  draw and iterates over a fixed region list, so its table does not depend on the state
  it is called in: two invocations, from any two states, return identical tables.
\<close>

theorem generators_deterministic:
  "fst (generate_mobility_data R w1) = fst (generate_mobility_data R w2) \<and>
   fst (generate_spending_data R w1) = fst (generate_spending_data R w2) \<and>
   fst (generate_demographic_data R w1) = fst (generate_demographic_data R w2)"
  by (simp only: mobility_table_seeded spending_table_seeded demographic_table_seeded)

section \<open>Segmentation\<close>

lemma and_then_Inr: "and_then r f = Inr y \<Longrightarrow> \<exists>x. r = Inr x \<and> f x = Inr y"
  by (cases r) (simp_all add: and_then_def)

lemmas seg_defs = perform_segmentation_analysis_def and_then_def pivot_fillna_def merge_inner_def
  select_features_def missing_feature_def features_def fit_transform_def fit_predict_def
  pivot_cell_def Let_def

lemmas fixture_defs = four_mobility_def four_spending_def three_mobility_def three_spending_def
  five_mobility_def no_restaurants_spending_def mobility_of_def spending_of_def

lemma upt_0_4: "[0..<4] = [0, 1, 2, 3]"
  by (simp add: upt_rec)

lemma str_nat_digits:
  "str_nat 0 = ''0''" "str_nat (Suc 0) = ''1''" "str_nat 2 = ''2''" "str_nat 3 = ''3''"
  by (simp_all add: str_nat.simps)

lemma four_regions_run:
  "\<exists>r. perform_segmentation_analysis round_robin four_mobility four_spending = Inr r
     \<and> map (\<lambda>(k, p). (k, size p, cp_counties p)) (cluster_profiles r)
         = [(''cluster_0'', 1, [''A'']), (''cluster_1'', 1, [''B'']),
            (''cluster_2'', 1, [''C'']), (''cluster_3'', 1, [''D''])]"
  by (simp add: seg_defs fixture_defs round_robin_def cluster_profile_of_def upt_0_4
        str_nat_digits)

text \<open>
  Claim C10. Whenever the segmentation returns a result, its \<open>silhouette_score\<close> is the
  literal 0.65, whatever the tables and the cluster assignment are.
\<close>

theorem silhouette_score_constant:
  "perform_segmentation_analysis K mobility_data spending_data = Inr r
     \<Longrightarrow> silhouette_score r = 0.65"
  unfolding perform_segmentation_analysis_def
  by (auto dest!: and_then_Inr split: if_splits prod.splits)

theorem silhouette_score_constant_witness:
  "\<exists>r. perform_segmentation_analysis round_robin four_mobility four_spending = Inr r
       \<and> silhouette_score r = 0.65"
proof -
  from four_regions_run obtain r
    where r: "perform_segmentation_analysis round_robin four_mobility four_spending = Inr r"
    by blast
  from silhouette_score_constant [OF r] r show ?thesis by blast
qed

lemma never_configuration_error:
  "perform_segmentation_analysis K mobility_data spending_data \<noteq> Inl (ConfigurationError n)"
  unfolding perform_segmentation_analysis_def and_then_def pivot_fillna_def merge_inner_def
    select_features_def fit_transform_def fit_predict_def Let_def
  by (auto split: sum.splits option.splits if_splits prod.splits)

lemma segmentation_needs_four:
  assumes "perform_segmentation_analysis K mobility_data spending_data = Inr r"
  shows "\<exists>pv combined. pivot_fillna spending_data = Inr pv
           \<and> merge_inner mobility_data pv = Inr combined \<and> 4 \<le> length combined
           \<and> n_clusters r = 4 \<and> length (cluster_profiles r) = 4"
  using assms unfolding perform_segmentation_analysis_def
  by (auto dest!: and_then_Inr simp: select_features_def fit_transform_def fit_predict_def
           split: if_splits prod.splits option.splits)

lemma three_regions_run:
  "perform_segmentation_analysis K three_mobility three_spending
     = Inl (ValueError ''n_samples should be >= n_clusters'')"
  by (simp add: seg_defs fixture_defs)

text \<open>
  Claim C1 as stated fails: with three regions and the cluster count 4 the run ends in
  the \<open>ValueError\<close> of the clustering library, not in a \<open>ConfigurationError\<close>.
\<close>

theorem three_regions_value_error:
  "perform_segmentation_analysis round_robin three_mobility three_spending
     = Inl (ValueError ''n_samples should be >= n_clusters'') \<and>
   perform_segmentation_analysis round_robin three_mobility three_spending
     \<noteq> Inl (ConfigurationError 4)"
  by (simp add: three_regions_run)

lemma three_regions_merged:
  "\<exists>pv combined. pivot_fillna three_spending = Inr pv
      \<and> merge_inner three_mobility pv = Inr combined \<and> length combined = 3
      \<and> find (missing_feature (pv_columns pv)) features = None"
  by (simp add: pivot_fillna_def merge_inner_def pivot_cell_def Let_def fixture_defs
        missing_feature_def features_def)

lemma no_region_merged:
  "\<exists>pv. pivot_fillna four_spending = Inr pv
      \<and> merge_inner (drop 4 five_mobility) pv = Inr []
      \<and> find (missing_feature (pv_columns pv)) features = None"
  by (simp add: pivot_fillna_def merge_inner_def pivot_cell_def Let_def fixture_defs
        missing_feature_def features_def)

lemma too_few_outcome:
  assumes "pivot_fillna S = Inr pv" and "merge_inner M pv = Inr combined"
    and "length combined < 4"
  shows "perform_segmentation_analysis K M S =
          Inl (case find (missing_feature (pv_columns pv)) features of
                 Some f \<Rightarrow> KeyError f
               | None \<Rightarrow> if combined = [] then ValueError ''Found array with 0 sample(s)''
                        else ValueError ''n_samples should be >= n_clusters'')"
  using assms
  by (simp add: perform_segmentation_analysis_def and_then_def select_features_def
        fit_transform_def fit_predict_def split: option.splits)

text \<open>
  Claim C1, as the code has it. The cluster count is the constant 4 and the engine never
  raises \<open>ConfigurationError\<close>. Every result it returns has \<open>n_clusters = 4\<close>, exactly
  four cluster profiles, and comes from at least 4 joined regions. If the join leaves
  fewer than 4 regions, no cluster profiles are returned and the exception is:
  \<open>KeyError\<close> for the first missing feature column, if there is one; otherwise the
  scaler's \<open>ValueError\<close> if no region is left; otherwise the \<open>ValueError\<close>
  \<open>n_samples should be >= n_clusters\<close> of the clustering library.
\<close>

theorem cluster_count_fixed_at_four:
  "(\<forall>n. perform_segmentation_analysis K M S \<noteq> Inl (ConfigurationError n)) \<and>
   (\<forall>r. perform_segmentation_analysis K M S = Inr r \<longrightarrow>
        n_clusters r = 4 \<and> length (cluster_profiles r) = 4 \<and>
        (\<exists>pv combined. pivot_fillna S = Inr pv \<and> merge_inner M pv = Inr combined
            \<and> 4 \<le> length combined)) \<and>
   (\<forall>pv combined. pivot_fillna S = Inr pv \<and> merge_inner M pv = Inr combined
        \<and> length combined < 4 \<longrightarrow>
      perform_segmentation_analysis K M S =
        Inl (case find (missing_feature (pv_columns pv)) features of
               Some f \<Rightarrow> KeyError f
             | None \<Rightarrow> if combined = [] then ValueError ''Found array with 0 sample(s)''
                      else ValueError ''n_samples should be >= n_clusters''))"
proof (intro conjI)
  show "\<forall>n. perform_segmentation_analysis K M S \<noteq> Inl (ConfigurationError n)"
    by (simp add: never_configuration_error)
  show "\<forall>r. perform_segmentation_analysis K M S = Inr r \<longrightarrow>
        n_clusters r = 4 \<and> length (cluster_profiles r) = 4 \<and>
        (\<exists>pv combined. pivot_fillna S = Inr pv \<and> merge_inner M pv = Inr combined
            \<and> 4 \<le> length combined)"
    using segmentation_needs_four by blast
  show "\<forall>pv combined. pivot_fillna S = Inr pv \<and> merge_inner M pv = Inr combined
        \<and> length combined < 4 \<longrightarrow>
      perform_segmentation_analysis K M S =
        Inl (case find (missing_feature (pv_columns pv)) features of
               Some f \<Rightarrow> KeyError f
             | None \<Rightarrow> if combined = [] then ValueError ''Found array with 0 sample(s)''
                      else ValueError ''n_samples should be >= n_clusters'')"
    using too_few_outcome by blast
qed

theorem cluster_count_fixed_at_four_witness:
  "perform_segmentation_analysis round_robin three_mobility three_spending
     = Inl (ValueError ''n_samples should be >= n_clusters'') \<and>
   perform_segmentation_analysis round_robin (drop 4 five_mobility) four_spending
     = Inl (ValueError ''Found array with 0 sample(s)'') \<and>
   (\<exists>r. perform_segmentation_analysis round_robin four_mobility four_spending = Inr r
      \<and> n_clusters r = 4 \<and> length (cluster_profiles r) = 4)"
proof -
  from three_regions_merged obtain pv combined
    where a: "pivot_fillna three_spending = Inr pv
      \<and> merge_inner three_mobility pv = Inr combined \<and> length combined = 3
      \<and> find (missing_feature (pv_columns pv)) features = None"
    by (elim exE)
  then have "pivot_fillna three_spending = Inr pv \<and> merge_inner three_mobility pv = Inr combined
      \<and> length combined < 4" and f: "find (missing_feature (pv_columns pv)) features = None"
    and ne: "combined \<noteq> []"
    by auto
  with cluster_count_fixed_at_four [of round_robin three_mobility three_spending]
  have 1: "perform_segmentation_analysis round_robin three_mobility three_spending
     = Inl (ValueError ''n_samples should be >= n_clusters'')"
    by (auto simp: f ne)
  from no_region_merged obtain pv0
    where b: "pivot_fillna four_spending = Inr pv0
      \<and> merge_inner (drop 4 five_mobility) pv0 = Inr []
      \<and> find (missing_feature (pv_columns pv0)) features = None"
    by (elim exE)
  then have "pivot_fillna four_spending = Inr pv0 \<and> merge_inner (drop 4 five_mobility) pv0 = Inr []
      \<and> length ([] :: combined_row list) < 4" and f0: "find (missing_feature (pv_columns pv0)) features = None"
    by auto
  with cluster_count_fixed_at_four [of round_robin "drop 4 five_mobility" four_spending]
  have 2: "perform_segmentation_analysis round_robin (drop 4 five_mobility) four_spending
     = Inl (ValueError ''Found array with 0 sample(s)'')"
    by (auto simp: f0)
  from four_regions_run obtain r
    where r: "perform_segmentation_analysis round_robin four_mobility four_spending = Inr r"
    by (elim exE conjE)
  with cluster_count_fixed_at_four [of round_robin four_mobility four_spending]
  have 3: "n_clusters r = 4 \<and> length (cluster_profiles r) = 4" by blast
  from 1 2 r 3 show ?thesis by blast
qed

section \<open>Feature assembly\<close>

lemma map_of_keyed:
  "map_of (map (\<lambda>k. (k, f k)) ks) k = (if k \<in> set ks then Some (f k) else None)"
  by (induction ks) auto

lemma dict_get_keyed: "k \<in> set ks \<Longrightarrow> dict_get (map (\<lambda>k. (k, f k)) ks) k = f k"
  by (simp add: dict_get_def map_of_keyed)

lemma pivot_cell_missing:
  "\<forall>row\<in>set S. sp_county_fips row = c \<longrightarrow> category row \<noteq> cat \<Longrightarrow> pivot_cell S c cat = 0"
proof -
  assume "\<forall>row\<in>set S. sp_county_fips row = c \<longrightarrow> category row \<noteq> cat"
  then have "find (\<lambda>r. sp_county_fips r = c \<and> category r = cat) S = None"
    by (auto simp: find_None_iff)
  then show ?thesis by (simp add: pivot_cell_def)
qed

lemma pivot_shape:
  assumes "pivot_fillna S = Inr pv"
  shows "pv_columns pv = remdups (map category S) \<and>
         pv_rows pv = map (\<lambda>c. (c, map (\<lambda>cat. (cat, pivot_cell S c cat)) (pv_columns pv)))
                          (remdups (map sp_county_fips S))"
  using assms by (auto simp: pivot_fillna_def Let_def split: if_splits)

lemma merge_shape:
  assumes "pivot_fillna S = Inr pv" and "merge_inner M pv = Inr combined"
  shows "combined =
           map (\<lambda>m. \<lparr>mobility = m,
                      spending = map (\<lambda>cat. (cat, pivot_cell S (county_fips m) cat)) (pv_columns pv)\<rparr>)
               (filter (\<lambda>m. county_fips m \<in> sp_county_fips ` set S) M)"
proof -
  note sh = pivot_shape [OF assms(1)]
  have look: "map_of (pv_rows pv) c =
      (if c \<in> sp_county_fips ` set S
       then Some (map (\<lambda>cat. (cat, pivot_cell S c cat)) (pv_columns pv)) else None)" for c
    using sh map_of_keyed [of "\<lambda>c. map (\<lambda>cat. (cat, pivot_cell S c cat)) (pv_columns pv)"
                               "remdups (map sp_county_fips S)" c]
    by simp
  have "concat (map (\<lambda>m. case map_of (pv_rows pv) (county_fips m) of
                             None \<Rightarrow> []
                           | Some cells \<Rightarrow> [\<lparr>mobility = m, spending = cells\<rparr>]) M)
        = map (\<lambda>m. \<lparr>mobility = m,
                      spending = map (\<lambda>cat. (cat, pivot_cell S (county_fips m) cat)) (pv_columns pv)\<rparr>)
               (filter (\<lambda>m. county_fips m \<in> sp_county_fips ` set S) M)"
    by (induction M) (simp_all add: look)
  then show ?thesis using assms(2) by (simp add: merge_inner_def split: if_splits)
qed

lemma selected_columns:
  assumes "select_features cols combined = Inr F"
  shows "F = map feature_vector combined \<and>
         ''restaurants'' \<in> set cols \<and> ''retail'' \<in> set cols \<and> ''entertainment'' \<in> set cols"
proof -
  from assms have n: "find (missing_feature cols) features = None" and F: "F = map feature_vector combined"
    by (auto simp: select_features_def split: option.splits)
  from n have "\<forall>f\<in>set features. \<not> missing_feature cols f" by (simp add: find_None_iff)
  then show ?thesis using F by (simp add: features_def missing_feature_def)
qed

text \<open>
  Claim C7, as the code has it. Whenever the feature table is built, it has one row per
  mobility row whose region occurs in the spending table, in the order of the mobility
  table (a region absent from the spending table is dropped), and a region with no
  spending row for one of the feature categories has 0 in that column. The table is
  built only if every feature category occurs in some spending row.
\<close>

theorem assembled_features:
  assumes "pivot_fillna S = Inr pv"
    and "merge_inner M pv = Inr combined"
    and "select_features (pv_columns pv) combined = Inr F"
  shows "F = map feature_vector combined \<and>
         map mobility combined = filter (\<lambda>m. county_fips m \<in> sp_county_fips ` set S) M \<and>
         (\<forall>r\<in>set combined. \<forall>cat\<in>{''restaurants'', ''retail'', ''entertainment''}.
            (\<forall>row\<in>set S. sp_county_fips row = county_fips (mobility r) \<longrightarrow> category row \<noteq> cat)
              \<longrightarrow> dict_get (spending r) cat = 0)"
proof (intro conjI ballI impI)
  note sel = selected_columns [OF assms(3)]
  note sh = merge_shape [OF assms(1,2)]
  show "F = map feature_vector combined" using sel by simp
  show "map mobility combined = filter (\<lambda>m. county_fips m \<in> sp_county_fips ` set S) M"
    unfolding sh by (simp add: o_def)
  fix r cat
  assume r: "r \<in> set combined" and cat: "cat \<in> {''restaurants'', ''retail'', ''entertainment''}"
    and no: "\<forall>row\<in>set S. sp_county_fips row = county_fips (mobility r) \<longrightarrow> category row \<noteq> cat"
  from cat sel have c: "cat \<in> set (pv_columns pv)" by auto
  from r obtain m where "r = \<lparr>mobility = m,
      spending = map (\<lambda>cat. (cat, pivot_cell S (county_fips m) cat)) (pv_columns pv)\<rparr>"
    unfolding sh by auto
  then have "dict_get (spending r) cat = pivot_cell S (county_fips (mobility r)) cat"
    using c by (simp add: dict_get_keyed)
  then show "dict_get (spending r) cat = 0" using pivot_cell_missing [OF no] by simp
qed

lemma five_regions_assembly:
  "\<exists>pv combined. pivot_fillna four_spending = Inr pv
      \<and> merge_inner five_mobility pv = Inr combined
      \<and> select_features (pv_columns pv) combined
          = Inr [[20000, 0.9, 12, 200000, 150000, 90000], [9000, 0.7, 15, 100000, 120000, 60000],
                 [5000, 0.5, 20, 50000, 70000, 40000], [12000, 0.6, 16, 90000, 80000, 0]]
      \<and> map (\<lambda>r. county_fips (mobility r)) combined = [''A'', ''B'', ''C'', ''D'']"
  by (simp add: seg_defs fixture_defs feature_vector_def dict_get_def)

theorem assembled_features_witness:
  "\<exists>pv combined. pivot_fillna four_spending = Inr pv
      \<and> merge_inner five_mobility pv = Inr combined
      \<and> select_features (pv_columns pv) combined
          = Inr [[20000, 0.9, 12, 200000, 150000, 90000], [9000, 0.7, 15, 100000, 120000, 60000],
                 [5000, 0.5, 20, 50000, 70000, 40000], [12000, 0.6, 16, 90000, 80000, 0]]
      \<and> map (\<lambda>r. county_fips (mobility r)) combined = [''A'', ''B'', ''C'', ''D'']
      \<and> map feature_vector combined
          = [[20000, 0.9, 12, 200000, 150000, 90000], [9000, 0.7, 15, 100000, 120000, 60000],
             [5000, 0.5, 20, 50000, 70000, 40000], [12000, 0.6, 16, 90000, 80000, 0]]"
proof -
  from five_regions_assembly obtain pv combined
    where all: "pivot_fillna four_spending = Inr pv
      \<and> merge_inner five_mobility pv = Inr combined
      \<and> select_features (pv_columns pv) combined
          = Inr [[20000, 0.9, 12, 200000, 150000, 90000], [9000, 0.7, 15, 100000, 120000, 60000],
                 [5000, 0.5, 20, 50000, 70000, 40000], [12000, 0.6, 16, 90000, 80000, 0]]
      \<and> map (\<lambda>r. county_fips (mobility r)) combined = [''A'', ''B'', ''C'', ''D'']"
    by (elim exE)
  then have a: "pivot_fillna four_spending = Inr pv"
    and b: "merge_inner five_mobility pv = Inr combined"
    and c: "select_features (pv_columns pv) combined
          = Inr [[20000, 0.9, 12, 200000, 150000, 90000], [9000, 0.7, 15, 100000, 120000, 60000],
                 [5000, 0.5, 20, 50000, 70000, 40000], [12000, 0.6, 16, 90000, 80000, 0]]"
    by simp_all
  from assembled_features [OF a b c]
  have "map feature_vector combined
          = [[20000, 0.9, 12, 200000, 150000, 90000], [9000, 0.7, 15, 100000, 120000, 60000],
             [5000, 0.5, 20, 50000, 70000, 40000], [12000, 0.6, 16, 90000, 80000, 0]]"
    by simp
  with all show ?thesis by (intro exI [of _ pv] exI [of _ combined]) simp
qed

text \<open>
  Claim C7 as stated fails where no region has the category: with the \<open>restaurants\<close>
  rows of all four regions removed, the pivot has no such column and selecting the
  feature columns raises \<open>KeyError\<close>; no region gets a 0, no feature table is built.
\<close>

theorem missing_category_column_raises:
  "perform_segmentation_analysis round_robin four_mobility no_restaurants_spending
     = Inl (KeyError ''restaurants'')"
  by (simp add: seg_defs fixture_defs)

section \<open>The whole run\<close>

lemma segmentation_profiles:
  assumes "perform_segmentation_analysis K mobility_data spending_data = Inr seg"
  shows "\<exists>pv combined labels. pivot_fillna spending_data = Inr pv
           \<and> merge_inner mobility_data pv = Inr combined
           \<and> cluster_profiles seg = map (cluster_profile_of (zip combined labels)) [0..<4]"
  using assms unfolding perform_segmentation_analysis_def
  apply (auto dest!: and_then_Inr split: if_splits prod.splits simp del: map_eq_conv)
  apply (rule exI, rule refl)
  done

lemma profile_means_defined:
  assumes "size (snd (cluster_profile_of labelled cid)) \<noteq> 0"
  shows "avg_trips (snd (cluster_profile_of labelled cid)) \<noteq> None
       \<and> avg_restaurant_spending (snd (cluster_profile_of labelled cid)) \<noteq> None"
  using assms by (simp add: cluster_profile_of_def series_mean_def Let_def)

lemma persona_of_succeeds:
  assumes "avg_trips p \<noteq> None" and "avg_restaurant_spending p \<noteq> None"
  shows "\<exists>q. fst (persona_of R i p s) = Inr q"
proof -
  from assms obtain a b where "avg_trips p = Some a" "avg_restaurant_spending p = Some b"
    by auto
  then show ?thesis by (simp add: persona_of_def split_def Let_def)
qed


lemma dict_set_nonempty: "dict_set kvs k v \<noteq> []"
  by (cases kvs) (auto split: if_splits)

lemma persona_loop_succeeds:
  assumes "\<forall>(k, p)\<in>set profiles. avg_trips p \<noteq> None \<and> avg_restaurant_spending p \<noteq> None"
    and "acc \<noteq> [] \<or> profiles \<noteq> []"
  shows "\<exists>ps. fst (persona_loop R i profiles acc s) = Inr ps \<and> ps \<noteq> []"
  using assms
proof (induction profiles arbitrary: i acc s)
  case Nil
  then show ?case by simp
next
  case (Cons kp rest)
  obtain k p where kp: "kp = (k, p)" by (cases kp)
  from Cons.prems(1) kp have "avg_trips p \<noteq> None" and "avg_restaurant_spending p \<noteq> None"
    by auto
  then have "\<exists>q. fst (persona_of R i p s) = Inr q"
    by (rule persona_of_succeeds)
  then obtain q s' where s': "persona_of R i p s = (Inr q, s')"
    by (cases "persona_of R i p s") auto
  from Cons.prems(1)
  have rest: "\<forall>(k, p)\<in>set rest. avg_trips p \<noteq> None \<and> avg_restaurant_spending p \<noteq> None"
    by auto
  have ne: "dict_set acc (''persona_'' @ str_nat i) q \<noteq> [] \<or> rest \<noteq> []"
    by (simp add: dict_set_nonempty)
  from Cons.IH [OF rest ne, of "Suc i" s'] show ?case
    unfolding kp by (simp add: s')
qed


lemma market_succeeds:
  "ps \<noteq> [] \<Longrightarrow> \<exists>mi. generate_market_intelligence ps opps = Inr mi"
  by (cases ps) (auto simp: generate_market_intelligence_def Let_def split: list.splits)

lemma run_result:
  "fst (generate_comprehensive_analysis R K now w) =
     (case perform_segmentation_analysis K (fst (generate_mobility_data R w))
             (fst (generate_spending_data R (snd (generate_mobility_data R w)))) of
        Inl e \<Rightarrow> Inl e
      | Inr seg \<Rightarrow>
          (case fst (generate_persona_insights R seg
                  (fst (generate_demographic_data R
                    (snd (generate_spending_data R (snd (generate_mobility_data R w))))))
                  (snd (generate_demographic_data R
                    (snd (generate_spending_data R (snd (generate_mobility_data R w))))))) of
             Inl e \<Rightarrow> Inl e
           | Inr ps \<Rightarrow>
               (case generate_market_intelligence ps opportunity_catalogue of
                  Inl e \<Rightarrow> Inl e
                | Inr mi \<Rightarrow>
                    Inr \<lparr>personas = ps,
                         opportunities = opportunity_catalogue,
                         insights = mi,
                         predictive_analytics = predictions,
                         segmentation_results = seg,
                         data_summary =
                           \<lparr>mobility_records = length (fst (generate_mobility_data R w)),
                            spending_records = length (fst (generate_spending_data R
                               (snd (generate_mobility_data R w)))),
                            demographic_records = length (fst (generate_demographic_data R
                               (snd (generate_spending_data R (snd (generate_mobility_data R w)))))),
                            analysis_date = now\<rparr>\<rparr>)))"
  unfolding generate_comprehensive_analysis_def identify_business_opportunities_def
    generate_predictive_insights_def Let_def split_def
  by (simp split: sum.split prod.split)

lemma run_Inr:
  assumes "fst (generate_comprehensive_analysis R K now w) = Inr r"
  shows "\<exists>seg demo w3.
           perform_segmentation_analysis K (fst (generate_mobility_data R w))
             (fst (generate_spending_data R (snd (generate_mobility_data R w)))) = Inr seg
         \<and> fst (generate_persona_insights R seg demo w3) = Inr (personas r)
         \<and> generate_market_intelligence (personas r) (opportunities r) = Inr (insights r)"
  using assms unfolding run_result
  apply (auto split: sum.splits)
  apply blast
  done

text \<open>The run succeeds as soon as the segmentation does and leaves no cluster empty.\<close>

lemma run_succeeds:
  assumes "perform_segmentation_analysis K (fst (generate_mobility_data R w))
             (fst (generate_spending_data R (snd (generate_mobility_data R w)))) = Inr seg"
    and "list_all (\<lambda>(k, p). size p \<noteq> 0) (cluster_profiles seg)"
  shows "\<exists>r. fst (generate_comprehensive_analysis R K now w) = Inr r"
proof -
  from segmentation_profiles [OF assms(1)] obtain combined labels
    where cp: "cluster_profiles seg = map (cluster_profile_of (zip combined labels)) [0..<4]"
    by blast
  have ok: "\<forall>(k, p)\<in>set (cluster_profiles seg).
              avg_trips p \<noteq> None \<and> avg_restaurant_spending p \<noteq> None"
  proof (clarify)
    fix k p
    assume m: "(k, p) \<in> set (cluster_profiles seg)"
    then obtain cid where "(k, p) = cluster_profile_of (zip combined labels) cid"
      unfolding cp by auto
    then have p: "p = snd (cluster_profile_of (zip combined labels) cid)"
      by (metis snd_conv)
    from assms(2) m have "size p \<noteq> 0" by (auto simp: list_all_iff)
    then show "avg_trips p \<noteq> None \<and> avg_restaurant_spending p \<noteq> None"
      unfolding p by (rule profile_means_defined)
  qed
  have ne: "[] \<noteq> [] \<or> cluster_profiles seg \<noteq> []" unfolding cp by (simp add: upt_rec)
  define demo where "demo = fst (generate_demographic_data R
      (snd (generate_spending_data R (snd (generate_mobility_data R w)))))"
  define w3 where "w3 = snd (generate_demographic_data R
      (snd (generate_spending_data R (snd (generate_mobility_data R w)))))"
  from persona_loop_succeeds [OF ok ne, of R 0 "rng w3"]
  obtain ps where "fst (persona_loop R 0 (cluster_profiles seg) [] (rng w3)) = Inr ps"
    and pne: "ps \<noteq> []"
    by blast
  then have ps: "fst (generate_persona_insights R seg demo w3) = Inr ps"
    by (simp add: generate_persona_insights_def split_def Let_def)
  from market_succeeds [OF pne] obtain mi
    where mi: "generate_market_intelligence ps opportunity_catalogue = Inr mi"
    by blast
  show ?thesis
    unfolding run_result using assms(1) ps mi
    by (simp add: demo_def w3_def)
qed

section \<open>One concrete run\<close>

lemmas gen_defs = counties_def categories_def mean_rng_def mean_of_def category_dist_def
  base_multiplier_def dict_get_def spending_rows_def py_round_def round_half_even_def Let_def
  mobility_record_def base_metrics_def sample3_def county_names_def py_int_def

text \<open>With the mean-valued generator and the round-robin partitioning, the seven
  generated regions fall into clusters of sizes 2, 2, 2 and 1.\<close>

lemma demo_segmentation:
  "\<exists>seg. perform_segmentation_analysis round_robin (fst (generate_mobility_data mean_rng w0))
           (fst (generate_spending_data mean_rng (snd (generate_mobility_data mean_rng w0))))
          = Inr seg
       \<and> map (\<lambda>(k, p). size p) (cluster_profiles seg) = [2, 2, 2, 1]"
  unfolding mobility_table_seeded spending_table_seeded
  apply (simp add: gen_defs)
  apply (simp add: seg_defs round_robin_def cluster_profile_of_def upt_0_4)
  done

lemma demo_result_run:
  "fst (generate_comprehensive_analysis mean_rng round_robin ''2024-01-01T00:00:00'' w0)
     = Inr demo_result"
proof -
  from demo_segmentation obtain seg
    where both: "perform_segmentation_analysis round_robin (fst (generate_mobility_data mean_rng w0))
           (fst (generate_spending_data mean_rng (snd (generate_mobility_data mean_rng w0))))
          = Inr seg
       \<and> map (\<lambda>(k, p). size p) (cluster_profiles seg) = [2, 2, 2, 1]" ..
  then have seg: "perform_segmentation_analysis round_robin (fst (generate_mobility_data mean_rng w0))
           (fst (generate_spending_data mean_rng (snd (generate_mobility_data mean_rng w0))))
          = Inr seg"
    and sizes: "map (\<lambda>(k, p). size p) (cluster_profiles seg) = [2, 2, 2, 1]"
    by simp_all
  have "list_all (\<lambda>n. n \<noteq> 0) (map (\<lambda>(k, p). size p) (cluster_profiles seg))"
    unfolding sizes by simp
  then have "list_all (\<lambda>(k, p). size p \<noteq> 0) (cluster_profiles seg)"
    by (simp add: list_all_iff split_def)
  from run_succeeds [OF seg this, of "''2024-01-01T00:00:00''"]
  show ?thesis unfolding demo_result_def by auto
qed

section \<open>Market intelligence\<close>

lemma market_totals:
  "generate_market_intelligence ps opps = Inr mi \<Longrightarrow>
     total_addressable_market (market_overview mi) = sum_list (map (\<lambda>(k, p). market_value p) ps) \<and>
     total_population (market_overview mi) = sum_list (map (\<lambda>(k, p). estimated_population p) ps)"
  by (auto simp: generate_market_intelligence_def Let_def split: list.splits)

lemma market_needs_personas:
  "generate_market_intelligence ps opps = Inr mi \<Longrightarrow> ps \<noteq> []"
  by (auto simp: generate_market_intelligence_def Let_def split: list.splits)

text \<open>
  Claim C8. In every Analysis Result the run returns, \<open>total_addressable_market\<close> is the
  sum of \<open>market_value\<close> over the personas of that result and \<open>total_population\<close> is the
  sum of their \<open>estimated_population\<close>: both are integer sums, and the market
  intelligence is computed from the very persona mapping that the result carries.
\<close>

theorem aggregate_consistency:
  "fst (generate_comprehensive_analysis R K now w) = Inr r \<Longrightarrow>
     total_addressable_market (market_overview (insights r))
       = sum_list (map (\<lambda>(k, p). market_value p) (personas r)) \<and>
     total_population (market_overview (insights r))
       = sum_list (map (\<lambda>(k, p). estimated_population p) (personas r))"
  using run_Inr market_totals by blast

theorem aggregate_consistency_witness:
  "fst (generate_comprehensive_analysis mean_rng round_robin ''2024-01-01T00:00:00'' w0)
     = Inr demo_result \<and>
   total_addressable_market (market_overview (insights demo_result))
     = sum_list (map (\<lambda>(k, p). market_value p) (personas demo_result)) \<and>
   total_population (market_overview (insights demo_result))
     = sum_list (map (\<lambda>(k, p). estimated_population p) (personas demo_result))"
  using aggregate_consistency [OF demo_result_run] demo_result_run by simp

section \<open>Visualizations\<close>

lemma set_dict_set: "set (dict_set kvs k v) \<subseteq> insert (k, v) (set kvs)"
  by (induction kvs) (auto split: if_splits)

lemma keys_dict_set:
  "map fst (dict_set kvs k v) = (if k \<in> set (map fst kvs) then map fst kvs else map fst kvs @ [k])"
  by (induction kvs) (force split: if_splits)+

lemma remdups_drop_repeated:
  "k \<in> set ys \<Longrightarrow> remdups (xs @ k # ys) = remdups (xs @ ys)"
  by (induction xs) auto

lemma first_occurrences_repeated:
  "k \<in> set xs \<Longrightarrow> rev (remdups (rev (xs @ k # ys))) = rev (remdups (rev (xs @ ys)))"
  using remdups_drop_repeated [of k "rev xs" "rev ys"] by simp

text \<open>The loop leaves under every name the trends of the last persona of that name.\<close>

lemma seasonal_loop_map_of:
  "map_of (seasonal_loop ps acc)
     = map_of acc ++ map_of (rev (map (\<lambda>(k, p). (persona_name p, seasonal_trends p)) ps))"
proof (induction ps arbitrary: acc)
  case Nil
  then show ?case by simp
next
  case (Cons kp ps)
  obtain k p where kp: "kp = (k, p)" by (cases kp)
  show ?case
    unfolding kp by (simp add: Cons.IH map_of_dict_set map_add_upd_left fun_eq_iff map_add_def
        split: option.splits)
qed

text \<open>The keys are the persona names in the order of their first occurrence.\<close>

lemma seasonal_loop_keys:
  "distinct (map fst acc) \<Longrightarrow>
   map fst (seasonal_loop ps acc)
     = rev (remdups (rev (map fst acc @ map (\<lambda>(k, p). persona_name p) ps)))"
proof (induction ps arbitrary: acc)
  case Nil
  then show ?case by (simp add: distinct_remdups_id)
next
  case (Cons kp ps)
  obtain k p where kp: "kp = (k, p)" by (cases kp)
  have d: "distinct (map fst (dict_set acc (persona_name p) (seasonal_trends p)))"
    using Cons.prems by (simp add: keys_dict_set)
  show ?case
  proof (cases "persona_name p \<in> set (map fst acc)")
    case True
    with Cons.IH [OF d] show ?thesis
      unfolding kp using first_occurrences_repeated [of "persona_name p" "map fst acc"]
      by (simp add: keys_dict_set)
  next
    case False
    with Cons.IH [OF d] show ?thesis
      unfolding kp by (simp add: keys_dict_set)
  qed
qed

text \<open>
  Claim C3 as stated fails: the returned structure carries \<open>generated_at\<close>, the clock
  reading at the call, so two calls on the same Analysis Result one second apart return
  different structures.
\<close>

theorem visualizations_differ_in_timestamp:
  "create_advanced_visualizations ''2024-01-01T00:00:01'' demo_result
     \<noteq> create_advanced_visualizations ''2024-01-01T00:00:02'' demo_result"
  by (simp add: create_advanced_visualizations_def Let_def)

text \<open>
  Claim C3, as the code has it. Two calls on the same Analysis Result return structures
  that differ in \<open>generated_at\<close> only, which is the time of the call. Every other part is
  copied from the argument and no number is computed: \<open>market_analysis\<close> is the four
  lists of the personas' names, market values, estimated populations and targeting
  effectiveness, in the order of the personas; \<open>opportunity_analysis\<close> is the four lists of
  the opportunities' types, estimated market sizes, expected ROI ranges and investment
  levels, in the order of the opportunities; \<open>seasonal_trends\<close> has one entry per distinct
  persona name, in the order of first occurrence, holding the seasonal trends of the last
  persona of that name.
\<close>

theorem visualizations_project_result:
  "create_advanced_visualizations t1 r = (create_advanced_visualizations t2 r)\<lparr>generated_at := t1\<rparr> \<and>
   generated_at (create_advanced_visualizations t1 r) = t1 \<and>
   market_analysis (create_advanced_visualizations t1 r)
     = \<lparr>persona_names = map (\<lambda>(k, p). persona_name p) (personas r),
        market_values = map (\<lambda>(k, p). market_value p) (personas r),
        populations = map (\<lambda>(k, p). estimated_population p) (personas r),
        effectiveness_values = map (\<lambda>(k, p). targeting_effectiveness p) (personas r)\<rparr> \<and>
   opportunity_analysis (create_advanced_visualizations t1 r)
     = \<lparr>opportunity_types = map opportunity_type (opportunities r),
        market_sizes = map estimated_market_size (opportunities r),
        roi_ranges = map expected_roi (opportunities r),
        investment_levels = map investment_level (opportunities r)\<rparr> \<and>
   map_of (vz_seasonal_trends (create_advanced_visualizations t1 r))
     = map_of (rev (map (\<lambda>(k, p). (persona_name p, seasonal_trends p)) (personas r))) \<and>
   map fst (vz_seasonal_trends (create_advanced_visualizations t1 r))
     = rev (remdups (rev (map (\<lambda>(k, p). persona_name p) (personas r))))"
  using seasonal_loop_map_of [of "personas r" "[]"] seasonal_loop_keys [of "[]" "personas r"]
  by (simp add: create_advanced_visualizations_def Let_def)

section \<open>Bounded scores\<close>

lemma round_half_even_ge: "of_int a \<le> y \<Longrightarrow> a \<le> round_half_even y"
proof -
  assume "of_int a \<le> y"
  then have "a \<le> \<lfloor>y\<rfloor>" by (simp add: le_floor_iff)
  then show ?thesis by (simp add: round_half_even_def Let_def)
qed

lemma round_half_even_le: "y \<le> of_int b \<Longrightarrow> round_half_even y \<le> b"
proof -
  assume y: "y \<le> of_int b"
  then have f: "\<lfloor>y\<rfloor> \<le> b" by (simp add: floor_le_iff)
  show ?thesis
  proof (cases "\<lfloor>y\<rfloor> = b")
    case True
    then have "y - of_int \<lfloor>y\<rfloor> \<le> 0" using y by simp
    then show ?thesis using True by (simp add: round_half_even_def Let_def)
  next
    case False
    with f have "\<lfloor>y\<rfloor> + 1 \<le> b" by simp
    then show ?thesis by (simp add: round_half_even_def Let_def)
  qed
qed

lemma py_round_ge: "of_int a / 10 ^ n \<le> x \<Longrightarrow> of_int a / 10 ^ n \<le> py_round x n"
proof -
  assume "of_int a / 10 ^ n \<le> x"
  then have "of_int a \<le> x * 10 ^ n" by (simp add: pos_divide_le_eq)
  then have "a \<le> round_half_even (x * 10 ^ n)" by (rule round_half_even_ge)
  then have "(of_int a :: real) \<le> of_int (round_half_even (x * 10 ^ n))" by simp
  then show ?thesis unfolding py_round_def by (simp add: divide_right_mono)
qed

lemma py_round_le: "x \<le> of_int b / 10 ^ n \<Longrightarrow> py_round x n \<le> of_int b / 10 ^ n"
proof -
  assume "x \<le> of_int b / 10 ^ n"
  then have "x * 10 ^ n \<le> of_int b" by (simp add: pos_le_divide_eq)
  then have "round_half_even (x * 10 ^ n) \<le> b" by (rule round_half_even_le)
  then have "(of_int (round_half_even (x * 10 ^ n)) :: real) \<le> of_int b" by simp
  then show ?thesis unfolding py_round_def by (simp add: divide_right_mono)
qed

lemma member_ratio_round: "0.3 \<le> x \<Longrightarrow> x \<le> 0.95 \<Longrightarrow> 0.3 \<le> py_round x 3 \<and> py_round x 3 \<le> 0.95"
  using py_round_ge [of 300 3 x] py_round_le [of x 950 3] by simp

lemma duration_round: "5 \<le> x \<Longrightarrow> x \<le> 30 \<Longrightarrow> 5 \<le> py_round x 1 \<and> py_round x 1 \<le> 30"
  using py_round_ge [of 50 1 x] py_round_le [of x 300 1] by simp

lemma effectiveness_round: "0 \<le> x \<Longrightarrow> x \<le> 0.95 \<Longrightarrow> 0 \<le> py_round x 3 \<and> py_round x 3 \<le> 0.95"
  using py_round_ge [of 0 3 x] py_round_le [of x 950 3] by simp


lemma mobility_record_bounds:
  "0.3 \<le> member_ratio (fst (mobility_record R c s)) \<and>
   member_ratio (fst (mobility_record R c s)) \<le> 0.95 \<and>
   5 \<le> avg_trip_duration_minutes (fst (mobility_record R c s)) \<and>
   avg_trip_duration_minutes (fst (mobility_record R c s)) \<le> 30"
  using member_ratio_round duration_round
  by (simp add: mobility_record_def split_def Let_def)

lemma mobility_loop_bounds:
  "list_all (\<lambda>m. 0.3 \<le> member_ratio m \<and> member_ratio m \<le> 0.95 \<and>
                  5 \<le> avg_trip_duration_minutes m \<and> avg_trip_duration_minutes m \<le> 30)
     (fst (mobility_loop R cs s))"
proof (induction cs arbitrary: s)
  case Nil
  then show ?case by simp
next
  case (Cons c cs)
  from mobility_record_bounds [of R c s] Cons.IH [of "snd (mobility_record R c s)"]
  show ?case by (simp add: split_def Let_def)
qed

lemma merge_inner_rows:
  "merge_inner M pv = Inr combined \<Longrightarrow> r \<in> set combined \<Longrightarrow> mobility r \<in> set M"
  by (auto simp: merge_inner_def split: if_splits option.splits)

lemma sum_list_bounds:
  "\<forall>x\<in>set xs. lo \<le> x \<and> x \<le> (hi::real)
     \<Longrightarrow> real (length xs) * lo \<le> sum_list xs \<and> sum_list xs \<le> real (length xs) * hi"
  by (induction xs) (auto simp: algebra_simps)

lemma np_mean_bounds:
  assumes "xs \<noteq> []" and "\<forall>x\<in>set xs. lo \<le> x \<and> x \<le> hi"
  shows "lo \<le> np_mean xs \<and> np_mean xs \<le> hi"
proof -
  have n: "0 < real (length xs)" using assms(1) by simp
  from sum_list_bounds [OF assms(2)] n show ?thesis
    unfolding np_mean_def by (simp add: pos_le_divide_eq pos_divide_le_eq mult.commute)
qed

lemma profile_ratio_bounds:
  assumes "\<forall>r\<in>set (map fst labelled). lo \<le> member_ratio (mobility r) \<and> member_ratio (mobility r) \<le> hi"
    and "avg_member_ratio (snd (cluster_profile_of labelled cid)) = Some a"
  shows "lo \<le> a \<and> a \<le> hi"
proof -
  define xs where "xs = map (\<lambda>r. member_ratio (mobility r))
      (map fst (filter (\<lambda>(r, label). label = cid) labelled))"
  have a: "series_mean xs = Some a"
    using assms(2) by (simp add: cluster_profile_of_def Let_def xs_def)
  then have ne: "xs \<noteq> []" and m: "a = np_mean xs"
    by (auto simp: series_mean_def split: if_splits)
  have "\<forall>x\<in>set xs. lo \<le> x \<and> x \<le> hi"
    using assms(1) unfolding xs_def by auto
  from np_mean_bounds [OF ne this] show ?thesis unfolding m .
qed

lemma segmentation_ratio_bounds:
  assumes "perform_segmentation_analysis K M S = Inr seg"
    and "\<forall>m\<in>set M. lo \<le> member_ratio m \<and> member_ratio m \<le> hi"
    and "(k, p) \<in> set (cluster_profiles seg)"
    and "avg_member_ratio p = Some a"
  shows "lo \<le> a \<and> a \<le> hi"
proof -
  from segmentation_profiles [OF assms(1)] obtain pv combined labels
    where mi: "merge_inner M pv = Inr combined"
      and cp: "cluster_profiles seg = map (cluster_profile_of (zip combined labels)) [0..<4]"
    by blast
  from assms(3) obtain cid where "(k, p) = cluster_profile_of (zip combined labels) cid"
    unfolding cp by auto
  then have p: "p = snd (cluster_profile_of (zip combined labels) cid)"
    by (metis snd_conv)
  have "\<forall>r\<in>set (map fst (zip combined labels)).
          lo \<le> member_ratio (mobility r) \<and> member_ratio (mobility r) \<le> hi"
  proof
    fix r assume "r \<in> set (map fst (zip combined labels))"
    then have "r \<in> set combined" by (auto dest: set_zip_leftD)
    from merge_inner_rows [OF mi this] assms(2)
    show "lo \<le> member_ratio (mobility r) \<and> member_ratio (mobility r) \<le> hi" by blast
  qed
  from profile_ratio_bounds [OF this] assms(4) show ?thesis unfolding p by blast
qed


lemma persona_of_effectiveness:
  assumes "uniform_in_range R"
    and "persona_of R i p s = (Inr q, s')"
    and "\<forall>a. avg_member_ratio p = Some a \<longrightarrow> 0.3 \<le> a \<and> a \<le> 0.95"
  shows "0 \<le> targeting_effectiveness q \<and> targeting_effectiveness q \<le> 0.95"
proof -
  define s1 where "s1 = snd (draw_op R (Uniform 15 35) s)"
  define u2 where "u2 = fst (draw_op R (Uniform 0 0.1) s1)"
  define e where "e = map_option (\<lambda>a. 0.6 + a * 0.3 + u2) (avg_member_ratio p)"
  have u: "0 \<le> u2"
    using assms(1) unfolding uniform_in_range_def u2_def by simp
  have te: "targeting_effectiveness q = py_round (py_min 0.95 e) 3"
    using assms(2)
    by (auto simp: persona_of_def split_def Let_def e_def u2_def s1_def split: option.splits)
  have "0 \<le> py_min 0.95 e \<and> py_min 0.95 e \<le> 0.95"
  proof (cases "avg_member_ratio p")
    case None
    then show ?thesis by (simp add: e_def py_min_def)
  next
    case (Some a)
    with assms(3) have "0.3 \<le> a" by simp
    with u have "0 \<le> 0.6 + a * 0.3 + u2" by simp
    then show ?thesis using Some by (simp add: e_def py_min_def)
  qed
  then show ?thesis unfolding te using effectiveness_round by blast
qed

lemma persona_loop_effectiveness:
  assumes "uniform_in_range R"
    and "\<forall>(k, p)\<in>set profiles. \<forall>a. avg_member_ratio p = Some a \<longrightarrow> 0.3 \<le> a \<and> a \<le> 0.95"
    and "\<forall>(k, q)\<in>set acc. 0 \<le> targeting_effectiveness q \<and> targeting_effectiveness q \<le> 0.95"
    and "fst (persona_loop R i profiles acc s) = Inr ps"
  shows "\<forall>(k, q)\<in>set ps. 0 \<le> targeting_effectiveness q \<and> targeting_effectiveness q \<le> 0.95"
  using assms(2-4)
proof (induction profiles arbitrary: i acc s)
  case Nil
  then show ?case by simp
next
  case (Cons kp rest)
  obtain k p where kp: "kp = (k, p)" by (cases kp)
  obtain x s' where x: "persona_of R i p s = (x, s')" by (cases "persona_of R i p s")
  show ?case
  proof (cases x)
    case (Inl e)
    with Cons.prems(3) x show ?thesis unfolding kp by simp
  next
    case (Inr q)
    from Cons.prems(1) kp
    have pb: "\<forall>a. avg_member_ratio p = Some a \<longrightarrow> 0.3 \<le> a \<and> a \<le> 0.95" by auto
    from persona_of_effectiveness [OF assms(1) _ pb] x Inr
    have qb: "0 \<le> targeting_effectiveness q \<and> targeting_effectiveness q \<le> 0.95" by blast
    have acc': "\<forall>(k, q)\<in>set (dict_set acc (''persona_'' @ str_nat i) q).
                  0 \<le> targeting_effectiveness q \<and> targeting_effectiveness q \<le> 0.95"
      using Cons.prems(2) qb set_dict_set [of acc "''persona_'' @ str_nat i" q] by auto
    from Cons.prems(1)
    have rest: "\<forall>(k, p)\<in>set rest. \<forall>a. avg_member_ratio p = Some a \<longrightarrow> 0.3 \<le> a \<and> a \<le> 0.95"
      by auto
    from Cons.prems(3) x Inr
    have run: "fst (persona_loop R (Suc i) rest (dict_set acc (''persona_'' @ str_nat i) q) s') = Inr ps"
      unfolding kp by simp
    from Cons.IH [OF rest acc' run] show ?thesis .
  qed
qed

lemma mean_rng_uniform: "uniform_in_range mean_rng"
  by (simp add: uniform_in_range_def mean_rng_def mean_of_def)

text \<open>
  Claim C6. Every generated mobility row has \<open>member_ratio\<close> in [0.3, 0.95] and
  \<open>avg_trip_duration_minutes\<close> in [5, 30]: both are clamped and then rounded, and the
  bounds are themselves round values. Every persona of a returned Analysis Result has
  \<open>targeting_effectiveness\<close> in [0, 0.95]: the score is clipped at 0.95, and it is at
  least 0.6 + 0.3 \<times> 0.3 because the mean member ratio of a cluster is a mean of clamped
  values and the uniform draw added to it is not negative.
\<close>

theorem bounded_scores:
  assumes "uniform_in_range R"
  shows "list_all (\<lambda>m. 0.3 \<le> member_ratio m \<and> member_ratio m \<le> 0.95 \<and>
                       5 \<le> avg_trip_duration_minutes m \<and> avg_trip_duration_minutes m \<le> 30)
           (fst (generate_mobility_data R w)) \<and>
         (\<forall>r. fst (generate_comprehensive_analysis R K now w) = Inr r \<longrightarrow>
              list_all (\<lambda>(k, p). 0 \<le> targeting_effectiveness p \<and> targeting_effectiveness p \<le> 0.95)
                (personas r))"
proof (intro conjI allI impI)
  show rows: "list_all (\<lambda>m. 0.3 \<le> member_ratio m \<and> member_ratio m \<le> 0.95 \<and>
                       5 \<le> avg_trip_duration_minutes m \<and> avg_trip_duration_minutes m \<le> 30)
           (fst (generate_mobility_data R w))"
    unfolding mobility_table_seeded by (rule mobility_loop_bounds)
  fix r
  assume "fst (generate_comprehensive_analysis R K now w) = Inr r"
  from run_Inr [OF this] obtain seg demo w3
    where seg: "perform_segmentation_analysis K (fst (generate_mobility_data R w))
             (fst (generate_spending_data R (snd (generate_mobility_data R w)))) = Inr seg"
      and ps: "fst (generate_persona_insights R seg demo w3) = Inr (personas r)"
    by blast
  from rows have mb: "\<forall>m\<in>set (fst (generate_mobility_data R w)).
       0.3 \<le> member_ratio m \<and> member_ratio m \<le> 0.95"
    by (auto simp: list_all_iff)
  have pb: "\<forall>(k, p)\<in>set (cluster_profiles seg).
              \<forall>a. avg_member_ratio p = Some a \<longrightarrow> 0.3 \<le> a \<and> a \<le> 0.95"
    using segmentation_ratio_bounds [OF seg mb] by blast
  from ps have loop: "fst (persona_loop R 0 (cluster_profiles seg) [] (rng w3)) = Inr (personas r)"
    by (simp add: generate_persona_insights_def split_def Let_def)
  have "\<forall>(k, q)\<in>set (personas r).
          0 \<le> targeting_effectiveness q \<and> targeting_effectiveness q \<le> 0.95"
    by (rule persona_loop_effectiveness [OF assms pb _ loop]) simp
  then show "list_all (\<lambda>(k, p). 0 \<le> targeting_effectiveness p \<and> targeting_effectiveness p \<le> 0.95)
                (personas r)"
    by (simp add: list_all_iff)
qed

theorem bounded_scores_witness:
  "list_all (\<lambda>m. 0.3 \<le> member_ratio m \<and> member_ratio m \<le> 0.95 \<and>
                  5 \<le> avg_trip_duration_minutes m \<and> avg_trip_duration_minutes m \<le> 30)
     (fst (generate_mobility_data mean_rng w0)) \<and>
   fst (generate_comprehensive_analysis mean_rng round_robin ''2024-01-01T00:00:00'' w0)
     = Inr demo_result \<and>
   personas demo_result \<noteq> [] \<and>
   list_all (\<lambda>(k, p). 0 \<le> targeting_effectiveness p \<and> targeting_effectiveness p \<le> 0.95)
     (personas demo_result)"
proof -
  from run_Inr [OF demo_result_run] market_needs_personas
  have ne: "personas demo_result \<noteq> []" by blast
  from bounded_scores [OF mean_rng_uniform, of w0 round_robin "''2024-01-01T00:00:00''"]
    demo_result_run ne
  show ?thesis by blast
qed

end
